theory Spec2Isabelle
  imports Main
begin

section \<open>Shared vocabulary\<close>

text \<open>
  The repository holds two generations of the same backend: a Mongoose one
  (\<^verbatim>\<open>src/unnamed/part_000\<close>, the users controller over \<^verbatim>\<open>UserModel\<close>,
  \<^verbatim>\<open>EmployeeModel\<close>, \<^verbatim>\<open>TokenModel\<close> and \<^verbatim>\<open>ProjectModel\<close>) and a Prisma one
  (\<^verbatim>\<open>src/unnamed/part_001\<close>, the users controller, and
  \<^verbatim>\<open>src/src/controllers/employeesController.ts\<close>). Both are embedded here, each
  handler as a function from the request and the store to the reply and the
  store afterwards.

  An error is what a handler hands to \<^verbatim>\<open>next(error)\<close>: either the value of
  \<^verbatim>\<open>createHttpError(status, message)\<close> or whatever a collaborator (the store,
  the token library, \<^verbatim>\<open>JSON.parse\<close>) threw. A call to a collaborator is
  modelled as able to throw where the handler's behaviour depends on it (the
  two creations and the signing in \<^verbatim>\<open>registerUser\<close>, the signing in
  \<^verbatim>\<open>loginUser\<close>) and where the store checks what it is given (enumeration
  values, \<^verbatim>\<open>skip\<close>, \<^verbatim>\<open>orderBy\<close>); reads, writes and deletions of
  existing documents succeed.
\<close>

datatype error = HttpError nat string | Thrown string

datatype Role = Admin | Guest

text \<open>
  A collection is the list of its documents, in the store's natural order.
  \<^verbatim>\<open>findById\<close>, \<^verbatim>\<open>findOne\<close> and \<^verbatim>\<open>findUnique\<close> are \<^const>\<open>find\<close>: the first document that
  satisfies the filter. \<^verbatim>\<open>doc.deleteOne()\<close> and \<^verbatim>\<open>delete({where: {id}})\<close> remove the
  first document carrying the key; \<^verbatim>\<open>doc.save()\<close> and \<^verbatim>\<open>update\<close> write the document
  over the first one carrying its key. Identifiers are strings, as they
  arrive in \<^verbatim>\<open>req.params\<close>; a store keeps them unique, which theorems that need
  it assume explicitly.
\<close>

fun deleteOne :: "('a \<Rightarrow> string) \<Rightarrow> string \<Rightarrow> 'a list \<Rightarrow> 'a list" where
  "deleteOne key i [] = []"
| "deleteOne key i (x # xs) = (if key x = i then xs else x # deleteOne key i xs)"

fun save :: "('a \<Rightarrow> string) \<Rightarrow> 'a \<Rightarrow> 'a list \<Rightarrow> 'a list" where
  "save key d [] = []"
| "save key d (x # xs) = (if key x = key d then d # xs else x # save key d xs)"

section \<open>The Mongoose users controller (part 000)\<close>

text \<open>
  The documents carry the fields the controller reads and writes; a user's
  link to an employee is optional, and \<^verbatim>\<open>findById\<close> of a missing link finds
  nothing.
\<close>

record UserDoc =
  u_id :: string
  u_email :: string
  u_password :: string
  u_firstName :: string
  u_lastName :: string
  u_role :: Role
  u_image :: "string option"
  u_employee :: "string option"

record EmployeeDoc =
  e_id :: string
  e_firstName :: string
  e_lastName :: string
  e_department :: "string option"
  e_salary :: "int option"
  e_techStack :: "string list"

record TokenDoc =
  t_id :: string
  t_user :: string
  t_token :: string
  t_expirationTime :: nat

text \<open>
  Modelled from the spec: \<^verbatim>\<open>models/project\<close> is not among the sources. A project
  is an id, a name and a collection of (employee reference, part-time flag)
  pairs; the handler reads and writes the field \<^verbatim>\<open>employees\<close> and, in each
  entry, the field \<^verbatim>\<open>employee\<close>.
\<close>

record Membership =
  m_employee :: string
  m_partTime :: bool

record ProjectDoc =
  p_id :: string
  p_name :: string
  p_employees :: "Membership list"

record mongo =
  UserModel :: "UserDoc list"
  EmployeeModel :: "EmployeeDoc list"
  TokenModel :: "TokenDoc list"
  ProjectModel :: "ProjectDoc list"

subsection \<open>deleteUser\<close>

text \<open>
  The request carries the target in \<^verbatim>\<open>req.params.userId\<close> and, optionally, a
  \<^verbatim>\<open>userId\<close> in its body. \<^verbatim>\<open>req_caller\<close> is \<^verbatim>\<open>req.user\<close>, the authenticated
  caller; this handler never reads it.
\<close>

record DeleteUserReq =
  params_userId :: string
  body_userId :: "string option"
  req_caller :: "UserDoc option"

text \<open>
  The \<^verbatim>\<open>for (const project of projects)\<close> loop of \<^verbatim>\<open>deleteUser\<close>: each project
  found loses its entries for the employee and is saved.
\<close>

fun remove_memberships :: "string \<Rightarrow> ProjectDoc list \<Rightarrow> ProjectDoc list \<Rightarrow> ProjectDoc list" where
  "remove_memberships eid [] coll = coll"
| "remove_memberships eid (project # rest) coll =
     remove_memberships eid rest
       (save p_id (project\<lparr>p_employees := filter (\<lambda>employeeObj. m_employee employeeObj \<noteq> eid) (p_employees project)\<rparr>) coll)"

definition has_member :: "string \<Rightarrow> ProjectDoc \<Rightarrow> bool" where
  "has_member eid p = list_ex (\<lambda>m. m_employee m = eid) (p_employees p)"

definition deleteUser_mongoose :: "DeleteUserReq \<Rightarrow> mongo \<Rightarrow> (error + nat \<times> string) \<times> mongo" where
  "deleteUser_mongoose req s =
     (let userId = params_userId req in
      case find (\<lambda>u. u_id u = userId) (UserModel s) of
        None \<Rightarrow> (Inl (HttpError 404 ''User not found.''), s)
      | Some user \<Rightarrow>
          if u_role user = Admin then (Inl (HttpError 403 ''Cannot delete an admin user.''), s)
          else if body_userId req = Some userId
          then (Inl (HttpError 403 ''You are not authorized to delete yourself.''), s)
          else
            (case (case u_employee user of None \<Rightarrow> None
                   | Some ref \<Rightarrow> find (\<lambda>e. e_id e = ref) (EmployeeModel s)) of
               None \<Rightarrow> (Inl (HttpError 404 ''Employee not found.''), s)
             | Some employee \<Rightarrow>
                 let projects = filter (has_member (e_id employee)) (ProjectModel s);
                     s1 = s\<lparr>ProjectModel := remove_memberships (e_id employee) projects (ProjectModel s)\<rparr>;
                     s2 = s1\<lparr>UserModel := deleteOne u_id (u_id user) (UserModel s1)\<rparr>;
                     s3 = s2\<lparr>EmployeeModel := deleteOne e_id (e_id employee) (EmployeeModel s2)\<rparr>
                 in (Inr (200, ''User deleted successfully.''), s3)))"

subsection \<open>Collaborators of the Mongoose handlers\<close>

text \<open>
  What the handlers obtain from outside is gathered in one record: the
  adaptive hash and its comparison (\<^verbatim>\<open>bcrypt\<close>, ten salt rounds), the token
  signer (\<^verbatim>\<open>jwt.sign\<close> of the user id with a lifetime; it throws when it has no
  usable secret), the data URL built from the uploaded file if there is one,
  the identifiers the store gives to the documents it creates, whether the
  store rejects a creation (a validation or uniqueness failure of a schema
  that is not among the sources), and the role the user schema gives a user
  registered without one.
\<close>

record Env =
  bcrypt_hash :: "string \<Rightarrow> string"
  bcrypt_compare :: "string \<Rightarrow> string \<Rightarrow> bool"
  jwt_sign :: "string \<Rightarrow> nat \<Rightarrow> error + string"
  imageData :: "string option"
  new_employee_id :: string
  new_user_id :: string
  employee_create_error :: "error option"
  user_create_error :: "error option"
  default_role :: Role

definition EmployeeModel_create :: "Env \<Rightarrow> EmployeeDoc \<Rightarrow> mongo \<Rightarrow> error + EmployeeDoc \<times> mongo" where
  "EmployeeModel_create env input s =
     (case employee_create_error env of
        Some err \<Rightarrow> Inl err
      | None \<Rightarrow>
          let doc = input\<lparr>e_id := new_employee_id env\<rparr>
          in Inr (doc, s\<lparr>EmployeeModel := EmployeeModel s @ [doc]\<rparr>))"

definition UserModel_create :: "Env \<Rightarrow> UserDoc \<Rightarrow> mongo \<Rightarrow> error + UserDoc \<times> mongo" where
  "UserModel_create env input s =
     (case user_create_error env of
        Some err \<Rightarrow> Inl err
      | None \<Rightarrow>
          let doc = input\<lparr>u_id := new_user_id env\<rparr>
          in Inr (doc, s\<lparr>UserModel := UserModel s @ [doc]\<rparr>))"

subsection \<open>registerUser\<close>

record RegisterUserReq =
  r_email :: "string option"
  r_password :: "string option"
  r_firstName :: "string option"
  r_lastName :: "string option"
  r_role :: "Role option"
  r_department :: "string option"
  r_salary :: "int option"
  r_techStack :: "string list"

record RegisterUserRes =
  rr_status :: nat
  rr_id :: string
  rr_email :: string
  rr_firstName :: string
  rr_lastName :: string
  rr_role :: Role
  rr_image :: "string option"
  rr_employee :: EmployeeDoc
  rr_token :: string
  rr_expiresIn :: nat

text \<open>\<^verbatim>\<open>!x\<close> on an optional string: absent or empty.\<close>

definition missing :: "string option \<Rightarrow> bool" where
  "missing x = (case x of None \<Rightarrow> True | Some v \<Rightarrow> v = [])"

text \<open>
  The \<^verbatim>\<open>catch\<close> block of \<^verbatim>\<open>registerUser\<close> runs with the values \<^verbatim>\<open>employee\<close> and
  \<^verbatim>\<open>user\<close> have when the error is thrown: it deletes the employee when
  \<^verbatim>\<open>employee && !user\<close>, and forwards the error.
\<close>

definition register_catch :: "error \<Rightarrow> EmployeeDoc option \<Rightarrow> UserDoc option \<Rightarrow> mongo \<Rightarrow> (error + RegisterUserRes) \<times> mongo" where
  "register_catch err employee user s =
     (case (employee, user) of
        (Some e, None) \<Rightarrow> (Inl err, s\<lparr>EmployeeModel := deleteOne e_id (e_id e) (EmployeeModel s)\<rparr>)
      | _ \<Rightarrow> (Inl err, s))"

definition registerUser :: "Env \<Rightarrow> RegisterUserReq \<Rightarrow> mongo \<Rightarrow> (error + RegisterUserRes) \<times> mongo" where
  "registerUser env req s =
     (if missing (r_email req) \<or> missing (r_password req) \<or> missing (r_firstName req) \<or> missing (r_lastName req)
      then register_catch (HttpError 400 ''Missing required fields.'') None None s
      else
        case (r_email req, r_password req, r_firstName req, r_lastName req) of
          (Some email, Some password, Some firstName, Some lastName) \<Rightarrow>
            (case find (\<lambda>u. u_email u = email) (UserModel s) of
               Some existingUser \<Rightarrow> register_catch (HttpError 409 ''Email already registered.'') None None s
             | None \<Rightarrow>
                 let hashedPassword = bcrypt_hash env password in
                 case EmployeeModel_create env
                        \<lparr>e_id = [], e_firstName = firstName, e_lastName = lastName,
                         e_department = r_department req, e_salary = r_salary req,
                         e_techStack = r_techStack req\<rparr> s of
                   Inl err \<Rightarrow> register_catch err None None s
                 | Inr (employee, s1) \<Rightarrow>
                     (case UserModel_create env
                             \<lparr>u_id = [], u_email = email, u_password = hashedPassword,
                              u_firstName = firstName, u_lastName = lastName,
                              u_role = (case r_role req of Some r \<Rightarrow> r | None \<Rightarrow> default_role env),
                              u_image = imageData env, u_employee = Some (e_id employee)\<rparr> s1 of
                        Inl err \<Rightarrow> register_catch err (Some employee) None s1
                      | Inr (user, s2) \<Rightarrow>
                          let expireLength = 1000 * 60 * 60 * 24 in
                          (case jwt_sign env (u_id user) expireLength of
                             Inl err \<Rightarrow> register_catch err (Some employee) (Some user) s2
                           | Inr token \<Rightarrow>
                               (Inr \<lparr>rr_status = 201, rr_id = u_id user, rr_email = email,
                                     rr_firstName = firstName, rr_lastName = lastName,
                                     rr_role = u_role user, rr_image = imageData env,
                                     rr_employee = employee, rr_token = token,
                                     rr_expiresIn = expireLength\<rparr>, s2))))
        | _ \<Rightarrow> register_catch (HttpError 400 ''Missing required fields.'') None None s)"

subsection \<open>loginUser\<close>

record LoginUserReq =
  l_email :: "string option"
  l_password :: "string option"
  l_rememberMe :: "bool option"

record LoginUserRes =
  lr_status :: nat
  lr_id :: string
  lr_email :: string
  lr_firstName :: string
  lr_lastName :: string
  lr_role :: Role
  lr_image :: "string option"
  lr_employee :: "EmployeeDoc option"
  lr_token :: string
  lr_expiresIn :: nat

text \<open>\<^verbatim>\<open>populate("employee")\<close>: the referenced document, or nothing.\<close>

definition populate_employee :: "mongo \<Rightarrow> UserDoc \<Rightarrow> EmployeeDoc option" where
  "populate_employee s user =
     (case u_employee user of None \<Rightarrow> None
      | Some ref \<Rightarrow> find (\<lambda>e. e_id e = ref) (EmployeeModel s))"

definition loginUser :: "Env \<Rightarrow> LoginUserReq \<Rightarrow> mongo \<Rightarrow> error + LoginUserRes" where
  "loginUser env req s =
     (if missing (l_email req) \<or> missing (l_password req)
      then Inl (HttpError 400 ''Missing required fields.'')
      else
        case (l_email req, l_password req) of
          (Some email, Some password) \<Rightarrow>
            (case find (\<lambda>u. u_email u = email) (UserModel s) of
               None \<Rightarrow> Inl (HttpError 401 ''Invalid email or password.'')
             | Some user \<Rightarrow>
                 let isPasswordValid = bcrypt_compare env password (u_password user) in
                 if \<not> isPasswordValid then Inl (HttpError 401 ''Invalid email or password.'')
                 else
                   let expireLength = (if l_rememberMe req = Some True
                                       then 1000 * 60 * 60 * 24 * 7 else 1000 * 60 * 60 * 24) in
                   (case jwt_sign env (u_id user) expireLength of
                      Inl err \<Rightarrow> Inl err
                    | Inr token \<Rightarrow>
                        Inr \<lparr>lr_status = 200, lr_id = u_id user, lr_email = email,
                             lr_firstName = u_firstName user, lr_lastName = u_lastName user,
                             lr_role = u_role user, lr_image = u_image user,
                             lr_employee = populate_employee s user, lr_token = token,
                             lr_expiresIn = expireLength\<rparr>))
        | _ \<Rightarrow> Inl (HttpError 400 ''Missing required fields.''))"

subsection \<open>resetPassword\<close>

record ResetPasswordReq =
  rp_userId :: string
  rp_token :: string
  rp_password :: "string option"

definition resetPassword :: "Env \<Rightarrow> ResetPasswordReq \<Rightarrow> mongo \<Rightarrow> (error + string) \<times> mongo" where
  "resetPassword env req s =
     (let userId = rp_userId req; token = rp_token req in
      case find (\<lambda>u. u_id u = userId) (UserModel s) of
        None \<Rightarrow> (Inl (HttpError 400 ''Link is invalid or has expired.''), s)
      | Some user \<Rightarrow>
          (case find (\<lambda>t. t_user t = u_id user \<and> t_token t = token) (TokenModel s) of
             None \<Rightarrow> (Inl (HttpError 400 ''Link is invalid or has expired.''), s)
           | Some tokenObj \<Rightarrow>
               (case rp_password req of
                  None \<Rightarrow> (Inl (HttpError 400 ''Password not provided.''), s)
                | Some password \<Rightarrow>
                    if password = [] then (Inl (HttpError 400 ''Password not provided.''), s)
                    else
                      let hashedPassword = bcrypt_hash env password;
                          s1 = s\<lparr>UserModel := save u_id (user\<lparr>u_password := hashedPassword\<rparr>) (UserModel s)\<rparr>;
                          s2 = s1\<lparr>TokenModel := deleteOne t_id (t_id tokenObj) (TokenModel s1)\<rparr>
                      in (Inr ''Your password has been reset successfully.'', s2))))"

section \<open>The Prisma users controller (part 001)\<close>

record User =
  pu_id :: string
  pu_email :: string
  pu_firstName :: string
  pu_lastName :: string
  pu_password :: string
  pu_role :: Role
  pu_image :: "string option"

record Employee =
  emp_id :: string
  emp_firstName :: string
  emp_lastName :: string
  emp_department :: string
  emp_salary :: int
  emp_currency :: string
  emp_techStack :: string
  emp_isEmployed :: bool
  emp_isEmployedDate :: nat

record prisma =
  prisma_user :: "User list"
  prisma_employee :: "Employee list"

subsection \<open>deleteUser\<close>

text \<open>
  \<^verbatim>\<open>req.user\<close> is the caller the authentication middleware resolved, if any;
  \<^verbatim>\<open>loggedInUser?.role\<close> and \<^verbatim>\<open>loggedInUser?.id\<close> are \<^verbatim>\<open>undefined\<close> without one.
\<close>

record UserReq =
  req_user :: "User option"
  req_userId :: string

definition deleteUser_prisma :: "UserReq \<Rightarrow> prisma \<Rightarrow> (error + nat) \<times> prisma" where
  "deleteUser_prisma req s =
     (let loggedInUser = req_user req; userId = req_userId req in
      if map_option pu_role loggedInUser \<noteq> Some Admin \<and> map_option pu_id loggedInUser \<noteq> Some userId
      then (Inl (HttpError 403 ''This user is not allowed to delete other users.''), s)
      else
        case find (\<lambda>u. pu_id u = userId) (prisma_user s) of
          None \<Rightarrow> (Inl (HttpError 404 ''User not found.''), s)
        | Some user \<Rightarrow>
            if pu_role user = Admin \<and> Some (pu_id user) \<noteq> map_option pu_id loggedInUser
            then (Inl (HttpError 403 ''Cannot delete an admin user.''), s)
            else (Inr 204, s\<lparr>prisma_user := deleteOne pu_id userId (prisma_user s)\<rparr>))"

subsection \<open>updateUser\<close>

text \<open>
  The fields of the request body are arbitrary JSON values; \<^verbatim>\<open>undefined\<close> is the
  value of an absent field.
\<close>

datatype jsval = JUndefined | JNull | JBool bool | JNum int | JStr string

fun truthy :: "jsval \<Rightarrow> bool" where
  "truthy JUndefined = False"
| "truthy JNull = False"
| "truthy (JBool b) = b"
| "truthy (JNum n) = (n \<noteq> 0)"
| "truthy (JStr x) = (x \<noteq> [])"

text \<open>
  \<^verbatim>\<open>v !== undefined && (typeof v !== 'string' || !test(v))\<close>, the shape of the
  checks on \<^verbatim>\<open>email\<close>, \<^verbatim>\<open>firstName\<close>, \<^verbatim>\<open>lastName\<close> and \<^verbatim>\<open>password\<close>.
\<close>

fun bad_string_field :: "(string \<Rightarrow> bool) \<Rightarrow> jsval \<Rightarrow> bool" where
  "bad_string_field test JUndefined = False"
| "bad_string_field test (JStr x) = (\<not> test x)"
| "bad_string_field test v = True"

fun str_or :: "jsval \<Rightarrow> string \<Rightarrow> string" where
  "str_or (JStr x) d = x"
| "str_or v d = d"

record UpdateUserReq =
  uu_user :: "User option"
  uu_userId :: string
  uu_email :: jsval
  uu_firstName :: jsval
  uu_lastName :: jsval
  uu_password :: jsval
  uu_role :: jsval
  uu_file :: bool

text \<open>
  Modelled from the spec: \<^verbatim>\<open>exclude\<close> of \<^verbatim>\<open>../helpers\<close> is not among the sources;
  the reply is the user with the password field left out.
\<close>

record PublicUser =
  pub_id :: string
  pub_email :: string
  pub_firstName :: string
  pub_lastName :: string
  pub_role :: Role
  pub_image :: "string option"

definition exclude_password :: "User \<Rightarrow> PublicUser" where
  "exclude_password u =
     \<lparr>pub_id = pu_id u, pub_email = pu_email u, pub_firstName = pu_firstName u,
      pub_lastName = pu_lastName u, pub_role = pu_role u, pub_image = pu_image u\<rparr>"

text \<open>
  \<^verbatim>\<open>updateUser\<close>. The test of the e-mail regular expression and the hash are
  parameters: \<^verbatim>\<open>pattern_test\<close> stands for \<^verbatim>\<open>pattern.test\<close>, \<^verbatim>\<open>hash\<close> for
  \<^verbatim>\<open>bcrypt.hash\<close> with ten salt rounds.
\<close>

definition updateUser :: "(string \<Rightarrow> bool) \<Rightarrow> (string \<Rightarrow> string) \<Rightarrow> UpdateUserReq \<Rightarrow> prisma \<Rightarrow> (error + nat \<times> PublicUser) \<times> prisma" where
  "updateUser pattern_test hash req s =
     (let loggedInUser = uu_user req; userId = uu_userId req in
      if map_option pu_role loggedInUser \<noteq> Some Admin \<and> map_option pu_id loggedInUser \<noteq> Some userId
      then (Inl (HttpError 403 ''This user is not allowed to update other users.''), s)
      else
        case find (\<lambda>u. pu_id u = userId) (prisma_user s) of
          None \<Rightarrow> (Inl (HttpError 404 ''User not found.''), s)
        | Some user \<Rightarrow>
            if pu_role user = Admin \<and> Some (pu_id user) \<noteq> map_option pu_id loggedInUser
            then (Inl (HttpError 403 ''Cannot update an admin user.''), s)
            else if bad_string_field pattern_test (uu_email req)
                  \<or> bad_string_field (\<lambda>x. length x \<noteq> 0) (uu_firstName req)
                  \<or> bad_string_field (\<lambda>x. length x \<noteq> 0) (uu_lastName req)
                  \<or> bad_string_field (\<lambda>x. length x \<noteq> 0) (uu_password req)
                  \<or> (uu_role req \<noteq> JUndefined \<and> uu_role req \<noteq> JStr ''Admin'' \<and> uu_role req \<noteq> JStr ''Guest'')
            then (Inl (HttpError 400 ''Invalid input fields.''), s)
            else if truthy (uu_email req)
                  \<and> (case find (\<lambda>u. JStr (pu_email u) = uu_email req) (prisma_user s) of
                        None \<Rightarrow> False
                      | Some existingUser \<Rightarrow> pu_id existingUser \<noteq> userId)
            then (Inl (HttpError 409 ''User already exists.''), s)
            else
              let hashedPassword = (if truthy (uu_password req)
                                    then Some (hash (str_or (uu_password req) [])) else None);
                  imageData = (if uu_file req
                               then Some ''https://st3.depositphotos.com/1017228/18878/i/450/depositphotos_188781580-stock-photo-handsome-cheerful-young-man-standing.jpg''
                               else None);
                  updatedUser = user
                    \<lparr>pu_email := str_or (uu_email req) (pu_email user),
                     pu_firstName := str_or (uu_firstName req) (pu_firstName user),
                     pu_lastName := str_or (uu_lastName req) (pu_lastName user),
                     pu_password := (case hashedPassword of Some h \<Rightarrow> h | None \<Rightarrow> pu_password user),
                     pu_role := (if uu_role req = JStr ''Admin'' then Admin
                                 else if uu_role req = JStr ''Guest'' then Guest else pu_role user),
                     pu_image := (case imageData of Some i \<Rightarrow> Some i | None \<Rightarrow> pu_image user)\<rparr>
              in (Inr (200, exclude_password updatedUser),
                  s\<lparr>prisma_user := save pu_id updatedUser (prisma_user s)\<rparr>))"

section \<open>The employees controller\<close>

subsection \<open>Strings\<close>

text \<open>
  A \<^typ>\<open>char\<close> stands for one character of a text. The store evaluates
  \<^verbatim>\<open>contains\<close> with \<^verbatim>\<open>mode: "insensitive"\<close> as a case-insensitive \<^verbatim>\<open>LIKE\<close> on the
  term between two \<^verbatim>\<open>%\<close>, and the handler hands the term over as it came: in
  it \<^verbatim>\<open>%\<close> stands for any run of characters, \<^verbatim>\<open>_\<close> for any one character, and a
  backslash makes the character after it stand for itself. Letters are
  compared after the store's case folding, which depends on the store and is
  a parameter.
\<close>

datatype like_token = Lit char | AnyOne | AnyRun

definition like_token_of :: "char \<Rightarrow> like_token" where
  "like_token_of c = (if c = CHR ''%'' then AnyRun else if c = CHR ''_'' then AnyOne else Lit c)"

text \<open>
  Reading a pattern. A pattern that ends in a lone backslash is one the store
  refuses; the pattern made from a term ends in \<^verbatim>\<open>%\<close> and is never of that
  kind, and the lone backslash is read as nothing.
\<close>

fun like_pattern :: "string \<Rightarrow> like_token list" where
  "like_pattern [] = []"
| "like_pattern [c] = (if c = CHR 0x5C then [] else [like_token_of c])"
| "like_pattern (c # d # ds) =
     (if c = CHR 0x5C then Lit d # like_pattern ds else like_token_of c # like_pattern (d # ds))"

fun like_match :: "like_token list \<Rightarrow> string \<Rightarrow> bool" where
  "like_match [] t = (t = [])"
| "like_match (Lit c # ps) [] = False"
| "like_match (Lit c # ps) (x # xs) = (x = c \<and> like_match ps xs)"
| "like_match (AnyOne # ps) [] = False"
| "like_match (AnyOne # ps) (x # xs) = like_match ps xs"
| "like_match (AnyRun # ps) [] = like_match ps []"
| "like_match (AnyRun # ps) (x # xs) = (like_match ps (x # xs) \<or> like_match (AnyRun # ps) xs)"

fun fold_token :: "(char \<Rightarrow> char) \<Rightarrow> like_token \<Rightarrow> like_token" where
  "fold_token lc (Lit c) = Lit (lc c)"
| "fold_token lc AnyOne = AnyOne"
| "fold_token lc AnyRun = AnyRun"

definition contains_insensitive :: "(char \<Rightarrow> char) \<Rightarrow> string \<Rightarrow> string \<Rightarrow> bool" where
  "contains_insensitive lc field x =
     like_match (map (fold_token lc) (like_pattern (CHR ''%'' # x @ ''%''))) (map lc field)"

text \<open>The plain substring test, \<^verbatim>\<open>hay.includes(needle)\<close>.\<close>

fun starts_with :: "string \<Rightarrow> string \<Rightarrow> bool" where
  "starts_with hay [] = True"
| "starts_with [] (c # cs) = False"
| "starts_with (h # hs) (c # cs) = (h = c \<and> starts_with hs cs)"

fun str_includes :: "string \<Rightarrow> string \<Rightarrow> bool" where
  "str_includes [] needle = (needle = [])"
| "str_includes (h # hs) needle = (starts_with (h # hs) needle \<or> str_includes hs needle)"

text \<open>\<^verbatim>\<open>s.split(" ")\<close>: the pieces between the spaces, at least one.\<close>

fun split_space :: "string \<Rightarrow> string list" where
  "split_space [] = [[]]"
| "split_space (c # cs) =
     (if c = CHR '' '' then [] # split_space cs
      else (case split_space cs of [] \<Rightarrow> [[c]] | t # ts \<Rightarrow> (c # t) # ts))"

text \<open>\<^verbatim>\<open>xs[i]\<close>: \<^verbatim>\<open>undefined\<close> beyond the end.\<close>

fun at_index :: "'a list \<Rightarrow> nat \<Rightarrow> 'a option" where
  "at_index [] i = None"
| "at_index (x # xs) 0 = Some x"
| "at_index (x # xs) (Suc i) = at_index xs i"

subsection \<open>Numbers\<close>

text \<open>
  The page arithmetic of \<^verbatim>\<open>getEmployees\<close> is on integers, except that
  \<^verbatim>\<open>total / Number(take)\<close> divides by zero when \<^verbatim>\<open>take\<close> is \<^verbatim>\<open>0\<close>: the quotient is
  then \<^verbatim>\<open>NaN\<close> (for \<^verbatim>\<open>0 / 0\<close>) or an infinity, \<^verbatim>\<open>Math.ceil\<close> keeps it, and every
  comparison with \<^verbatim>\<open>NaN\<close> is false.
\<close>

datatype jsnum = Num int | NaN | PosInfinity | NegInfinity

definition Math_ceil_div :: "int \<Rightarrow> int \<Rightarrow> jsnum" where
  "Math_ceil_div a b =
     (if b = 0 then (if a = 0 then NaN else if 0 < a then PosInfinity else NegInfinity)
      else Num (- ((- a) div b)))"

fun js_gt :: "int \<Rightarrow> jsnum \<Rightarrow> bool" where
  "js_gt x (Num y) = (x > y)"
| "js_gt x NaN = False"
| "js_gt x PosInfinity = False"
| "js_gt x NegInfinity = True"

subsection \<open>The store's schema\<close>

text \<open>
  The Prisma schema is not among the sources, so what the handlers need of it
  and of the store behind it is a parameter: the values of the enumerations
  \<^verbatim>\<open>Currency\<close>, \<^verbatim>\<open>Department\<close> and \<^verbatim>\<open>TechStack\<close>; how the store orders rows for
  an \<^verbatim>\<open>orderBy\<close> field and direction (nothing for a field or a direction it
  does not know); the store's case folding; and what \<^verbatim>\<open>JSON.parse\<close> and the
  store make of an \<^verbatim>\<open>isEmployed\<close> text that is not a boolean literal: a filter
  object such as \<^verbatim>\<open>{"not": true}\<close> is a test on the stored boolean, and a text
  that does not parse or that the store refuses is nothing. The store rejects
  a query or an update that names a value outside an enumeration.
\<close>

record Schema =
  Currency :: "string list"
  Department :: "string list"
  TechStack :: "string list"
  order_rows :: "string \<Rightarrow> string \<Rightarrow> (Employee list \<Rightarrow> Employee list) option"
  lower_case :: "char \<Rightarrow> char"
  isEmployed_object :: "string \<Rightarrow> (bool \<Rightarrow> bool) option"

definition in_enum :: "string list \<Rightarrow> string option \<Rightarrow> bool" where
  "in_enum vs x = (case x of None \<Rightarrow> True | Some v \<Rightarrow> v \<in> set vs)"

subsection \<open>getEmployees\<close>

text \<open>
  The query parameters are strings or absent. \<^verbatim>\<open>page\<close> and \<^verbatim>\<open>take\<close> are modelled
  for requests that carry integer literals there (or nothing), with
  \<^verbatim>\<open>Number\<close> already applied; such a string is never empty, so it is truthy
  when present.
\<close>

record GetEmployeesQuery =
  q_searchTerm :: "string option"
  q_currency :: "string option"
  q_department :: "string option"
  q_techStack :: "string option"
  q_isEmployed :: "string option"
  q_orderByField :: "string option"
  q_orderDirection :: "string option"
  q_take :: "int option"
  q_page :: "int option"

text \<open>\<^verbatim>\<open>x ? x : undefined\<close> on an optional string.\<close>

definition if_truthy :: "string option \<Rightarrow> string option" where
  "if_truthy x = (case x of None \<Rightarrow> None | Some v \<Rightarrow> if v = [] then None else Some v)"

text \<open>
  \<^verbatim>\<open>JSON.parse(isEmployed)\<close> as the filter on \<^verbatim>\<open>isEmployed\<close>: a boolean literal
  (JSON allows blanks around it) asks for that value; any other text is the
  store's to accept as a filter object or to refuse, and a text that does not
  parse ends the request in an error as well.
\<close>

definition json_blank :: "char \<Rightarrow> bool" where
  "json_blank c = (c = CHR '' '' \<or> c = CHR 0x09 \<or> c = CHR 0x0A \<or> c = CHR 0x0D)"

definition isEmployed_where :: "Schema \<Rightarrow> string \<Rightarrow> error + (bool \<Rightarrow> bool)" where
  "isEmployed_where sch x =
     (let t = rev (dropWhile json_blank (rev (dropWhile json_blank x))) in
      if t = ''true'' then Inr (\<lambda>stored. stored)
      else if t = ''false'' then Inr (\<lambda>stored. \<not> stored)
      else (case isEmployed_object sch x of
              None \<Rightarrow> Inl (Thrown ''isEmployed is not a filter on a boolean'')
            | Some test \<Rightarrow> Inr test))"

text \<open>
  The \<^verbatim>\<open>where\<close> object: \<^verbatim>\<open>OR\<close> with its three alternatives (the first an \<^verbatim>\<open>AND\<close>
  of two \<^verbatim>\<open>contains\<close>), and the four filters. A \<^verbatim>\<open>contains\<close> or a filter that is
  \<^verbatim>\<open>undefined\<close> constrains nothing. \<^verbatim>\<open>searchTerm\<close> defaults to the empty string,
  and \<^verbatim>\<open>searchTerm && x\<close> is the empty string when the term is empty.
\<close>

record OR_clause =
  and_firstName :: "string option"
  and_lastName :: "string option"
  or_firstName :: "string option"
  or_lastName :: "string option"

record Where =
  w_OR :: OR_clause
  w_currency :: "string option"
  w_department :: "string option"
  w_techStack :: "string option"
  w_isEmployed :: "(bool \<Rightarrow> bool) option"

definition searchTerm_of :: "GetEmployeesQuery \<Rightarrow> string" where
  "searchTerm_of q = (case q_searchTerm q of None \<Rightarrow> [] | Some t \<Rightarrow> t)"

definition OR_of :: "GetEmployeesQuery \<Rightarrow> OR_clause" where
  "OR_of q =
     (let searchTerm = searchTerm_of q in
      \<lparr>and_firstName = (if searchTerm = [] then Some [] else at_index (split_space searchTerm) 0),
       and_lastName = (if searchTerm = [] then Some [] else at_index (split_space searchTerm) 1),
       or_firstName = (if searchTerm = [] then Some [] else Some searchTerm),
       or_lastName = (if searchTerm = [] then Some [] else Some searchTerm)\<rparr>)"

definition where_of :: "Schema \<Rightarrow> GetEmployeesQuery \<Rightarrow> error + Where" where
  "where_of sch q =
     (case (case if_truthy (q_isEmployed q) of
              None \<Rightarrow> Inr None
            | Some v \<Rightarrow> (case isEmployed_where sch v of Inl err \<Rightarrow> Inl err | Inr test \<Rightarrow> Inr (Some test))) of
        Inl err \<Rightarrow> Inl err
      | Inr isEmployed \<Rightarrow>
          Inr \<lparr>w_OR = OR_of q,
               w_currency = if_truthy (q_currency q),
               w_department = if_truthy (q_department q),
               w_techStack = if_truthy (q_techStack q),
               w_isEmployed = isEmployed\<rparr>)"

definition contains_filter :: "(char \<Rightarrow> char) \<Rightarrow> string option \<Rightarrow> string \<Rightarrow> bool" where
  "contains_filter lc c field = (case c of None \<Rightarrow> True | Some x \<Rightarrow> contains_insensitive lc field x)"

definition equals_filter :: "'a option \<Rightarrow> 'a \<Rightarrow> bool" where
  "equals_filter c field = (case c of None \<Rightarrow> True | Some x \<Rightarrow> field = x)"

definition search_matches :: "(char \<Rightarrow> char) \<Rightarrow> OR_clause \<Rightarrow> Employee \<Rightarrow> bool" where
  "search_matches lc c e =
     ((contains_filter lc (and_firstName c) (emp_firstName e) \<and> contains_filter lc (and_lastName c) (emp_lastName e))
      \<or> contains_filter lc (or_firstName c) (emp_firstName e)
      \<or> contains_filter lc (or_lastName c) (emp_lastName e))"

definition filters_match :: "Where \<Rightarrow> Employee \<Rightarrow> bool" where
  "filters_match w e =
     (equals_filter (w_currency w) (emp_currency e)
      \<and> equals_filter (w_department w) (emp_department e)
      \<and> equals_filter (w_techStack w) (emp_techStack e)
      \<and> (case w_isEmployed w of None \<Rightarrow> True | Some test \<Rightarrow> test (emp_isEmployed e)))"

definition where_matches :: "Schema \<Rightarrow> Where \<Rightarrow> Employee \<Rightarrow> bool" where
  "where_matches sch w e = (search_matches (lower_case sch) (w_OR w) e \<and> filters_match w e)"

definition valid_where :: "Schema \<Rightarrow> Where \<Rightarrow> bool" where
  "valid_where sch w =
     (in_enum (Currency sch) (w_currency w) \<and> in_enum (Department sch) (w_department w)
      \<and> in_enum (TechStack sch) (w_techStack w))"

text \<open>\<^verbatim>\<open>prisma.employee.count({ where })\<close>.\<close>

definition employee_count :: "Schema \<Rightarrow> Where \<Rightarrow> Employee list \<Rightarrow> error + nat" where
  "employee_count sch w rows =
     (if valid_where sch w then Inr (length (filter (where_matches sch w) rows))
      else Inl (Thrown ''PrismaClientValidationError''))"

text \<open>
  \<^verbatim>\<open>prisma.employee.findMany({ where, orderBy, skip, take })\<close>: the matching rows
  in order, without the first \<^verbatim>\<open>skip\<close>, cut to \<^verbatim>\<open>take\<close>. The store rejects a
  negative \<^verbatim>\<open>skip\<close>; a negative \<^verbatim>\<open>take\<close> counts from the end of the list. The
  project rows that \<^verbatim>\<open>include\<close> attaches to each employee do not enter any
  computation of the handler and are left out.
\<close>

definition sorter_of :: "Schema \<Rightarrow> (string \<times> string) option \<Rightarrow> (Employee list \<Rightarrow> Employee list) option" where
  "sorter_of sch orderBy = (case orderBy of None \<Rightarrow> Some (\<lambda>xs. xs) | Some (f, d) \<Rightarrow> order_rows sch f d)"

definition findMany :: "Schema \<Rightarrow> Where \<Rightarrow> (string \<times> string) option \<Rightarrow> int option \<Rightarrow> int option \<Rightarrow> Employee list \<Rightarrow> error + Employee list" where
  "findMany sch w orderBy skip take_arg rows =
     (if \<not> valid_where sch w then Inl (Thrown ''PrismaClientValidationError'')
      else
        case sorter_of sch orderBy of
          None \<Rightarrow> Inl (Thrown ''PrismaClientValidationError'')
        | Some sorter \<Rightarrow>
            if (case skip of None \<Rightarrow> False | Some k \<Rightarrow> k < 0)
            then Inl (Thrown ''PrismaClientValidationError'')
            else
              let matching = sorter (filter (where_matches sch w) rows);
                  k = (case skip of None \<Rightarrow> 0 | Some k \<Rightarrow> nat k)
              in Inr (case take_arg of
                        None \<Rightarrow> drop k matching
                      | Some t \<Rightarrow>
                          if 0 \<le> t then take (nat t) (drop k matching)
                          else rev (take (nat (- t)) (drop k (rev matching)))))"

record GetEmployeesRes =
  pageInfo_total :: int
  pageInfo_currentPage :: int
  pageInfo_lastPage :: jsnum
  pageInfo_perPage :: int
  employees :: "Employee list"

text \<open>
  \<^verbatim>\<open>skip\<close> is \<^verbatim>\<open>(Number(page) - 1) * Number(take)\<close> when both are given and
  \<^verbatim>\<open>0\<close> otherwise; \<^verbatim>\<open>orderBy\<close> is set when both the field and the direction are
  given.
\<close>

definition skip_of :: "GetEmployeesQuery \<Rightarrow> int" where
  "skip_of q = (case (q_page q, q_take q) of
                  (Some page, Some take_q) \<Rightarrow> (page - 1) * take_q
                | _ \<Rightarrow> 0)"

definition orderBy_of :: "GetEmployeesQuery \<Rightarrow> (string \<times> string) option" where
  "orderBy_of q = (case (if_truthy (q_orderByField q), if_truthy (q_orderDirection q)) of
                     (Some orderByField, Some orderDirection) \<Rightarrow> Some (orderByField, orderDirection)
                   | _ \<Rightarrow> None)"

definition getEmployees :: "Schema \<Rightarrow> GetEmployeesQuery \<Rightarrow> prisma \<Rightarrow> error + GetEmployeesRes" where
  "getEmployees sch q s =
     (let skip = skip_of q;
          orderBy = orderBy_of q
      in
      case where_of sch q of
        Inl err \<Rightarrow> Inl err
      | Inr w \<Rightarrow>
          (case employee_count sch w (prisma_employee s) of
             Inl err \<Rightarrow> Inl err
           | Inr count \<Rightarrow>
               (case findMany sch w orderBy (if skip < int count then Some skip else None)
                       (q_take q) (prisma_employee s) of
                  Inl err \<Rightarrow> Inl err
                | Inr found \<Rightarrow>
                    let total_v = (if length found > 0 then int count else 0);
                        lastPage_v = (case q_take q of
                                        Some take_q \<Rightarrow> Math_ceil_div total_v take_q
                                      | None \<Rightarrow> if total_v > 0 then Num 1 else Num 0);
                        currentPage_v = (case q_page q of
                                           Some page \<Rightarrow> if js_gt page lastPage_v then 1 else page
                                         | None \<Rightarrow> if total_v > 0 then 1 else 0);
                        perPage_v = (case q_take q of Some take_q \<Rightarrow> take_q | None \<Rightarrow> total_v)
                    in Inr \<lparr>pageInfo_total = total_v, pageInfo_currentPage = currentPage_v,
                            pageInfo_lastPage = lastPage_v, pageInfo_perPage = perPage_v,
                            employees = found\<rparr>)))"

subsection \<open>updateEmployee\<close>

text \<open>
  The body fields are modelled at the types the store accepts for them, an
  absent field being \<^verbatim>\<open>undefined\<close>; \<^verbatim>\<open>now\<close> is the value of \<^verbatim>\<open>new Date()\<close>.
\<close>

record UpdateEmployeeReq =
  ue_user :: "User option"
  ue_employeeId :: string
  ue_firstName :: "string option"
  ue_lastName :: "string option"
  ue_department :: "string option"
  ue_salary :: "int option"
  ue_currency :: "string option"
  ue_techStack :: "string option"
  ue_isEmployed :: "bool option"

definition or_keep :: "'a option \<Rightarrow> 'a \<Rightarrow> 'a" where
  "or_keep x old = (case x of None \<Rightarrow> old | Some v \<Rightarrow> v)"

definition updateEmployee :: "Schema \<Rightarrow> nat \<Rightarrow> UpdateEmployeeReq \<Rightarrow> prisma \<Rightarrow> (error + nat \<times> Employee) \<times> prisma" where
  "updateEmployee sch now req s =
     (if map_option pu_role (ue_user req) \<noteq> Some Admin
      then (Inl (HttpError 403 ''This user is not allowed to update employees.''), s)
      else
        case find (\<lambda>e. emp_id e = ue_employeeId req) (prisma_employee s) of
          None \<Rightarrow> (Inl (HttpError 404 ''Employee not found.''), s)
        | Some employee \<Rightarrow>
            let isEmployed = ue_isEmployed req;
                isEmployedDate = (if isEmployed \<noteq> None \<and> isEmployed \<noteq> Some (emp_isEmployed employee)
                                  then Some now else None)
            in
            if \<not> (in_enum (Department sch) (ue_department req) \<and> in_enum (Currency sch) (ue_currency req)
                    \<and> in_enum (TechStack sch) (ue_techStack req))
            then (Inl (Thrown ''PrismaClientValidationError''), s)
            else
              let updatedEmployee = employee
                    \<lparr>emp_firstName := or_keep (ue_firstName req) (emp_firstName employee),
                     emp_lastName := or_keep (ue_lastName req) (emp_lastName employee),
                     emp_department := or_keep (ue_department req) (emp_department employee),
                     emp_salary := (case ue_salary req of
                                      None \<Rightarrow> emp_salary employee
                                    | Some salary \<Rightarrow> if salary \<noteq> 0 then salary else emp_salary employee),
                     emp_currency := or_keep (ue_currency req) (emp_currency employee),
                     emp_techStack := or_keep (ue_techStack req) (emp_techStack employee),
                     emp_isEmployed := or_keep isEmployed (emp_isEmployed employee),
                     emp_isEmployedDate := or_keep isEmployedDate (emp_isEmployedDate employee)\<rparr>
              in (Inr (200, updatedEmployee),
                  s\<lparr>prisma_employee := save emp_id updatedEmployee (prisma_employee s)\<rparr>))"

section \<open>Well-formed stores and the specification's wording\<close>

text \<open>
  The store keeps the identifiers of a collection pairwise different. The
  data model relates an employee to at most one user, and the reset flow
  keeps at most one token record per user and token string.
\<close>

definition unique_ids :: "mongo \<Rightarrow> bool" where
  "unique_ids s =
     (distinct (map u_id (UserModel s)) \<and> distinct (map e_id (EmployeeModel s))
      \<and> distinct (map t_id (TokenModel s)) \<and> distinct (map p_id (ProjectModel s)))"

definition one_user_per_employee :: "mongo \<Rightarrow> bool" where
  "one_user_per_employee s = distinct (filter (\<lambda>r. r \<noteq> None) (map u_employee (UserModel s)))"

definition one_record_per_token :: "mongo \<Rightarrow> bool" where
  "one_record_per_token s = distinct (map (\<lambda>t. (t_user t, t_token t)) (TokenModel s))"

text \<open>
  Every employee a user links to exists; with the two properties above this
  is the shape of a store that the handlers of part 000 build and keep.
\<close>

definition links_resolve :: "mongo \<Rightarrow> bool" where
  "links_resolve s =
     list_all (\<lambda>u. case u_employee u of None \<Rightarrow> True
               | Some r \<Rightarrow> r \<in> set (map e_id (EmployeeModel s))) (UserModel s)"

definition store_ok :: "mongo \<Rightarrow> bool" where
  "store_ok s = (unique_ids s \<and> one_user_per_employee s \<and> links_resolve s)"

text \<open>
  The rows of page \<^verbatim>\<open>page\<close> when pages hold \<^verbatim>\<open>per_page\<close> rows: what "the data of
  page 1" and "the requested page's data" mean.
\<close>

definition page_rows :: "'a list \<Rightarrow> int \<Rightarrow> int \<Rightarrow> 'a list" where
  "page_rows rows page per_page = take (nat per_page) (drop (nat ((page - 1) * per_page)) rows)"


definition case_insensitive_substring :: "(char \<Rightarrow> char) \<Rightarrow> string \<Rightarrow> string \<Rightarrow> bool" where
  "case_insensitive_substring lc t field = str_includes (map lc field) (map lc t)"



definition plain :: "string \<Rightarrow> bool" where
  "plain t = list_all (\<lambda>c. c \<noteq> CHR ''%'' \<and> c \<noteq> CHR ''_'' \<and> c \<noteq> CHR 0x5C) t"

section \<open>Example data\<close>

definition admin0 :: UserDoc where
  "admin0 = \<lparr>u_id = ''u0'', u_email = ''root@fire.io'', u_password = ''h0'', u_firstName = ''Ada'',
             u_lastName = ''Root'', u_role = Admin, u_image = None, u_employee = Some ''e0''\<rparr>"

definition guest1 :: UserDoc where
  "guest1 = \<lparr>u_id = ''u1'', u_email = ''jane@fire.io'', u_password = ''h1'', u_firstName = ''Jane'',
             u_lastName = ''Doe'', u_role = Guest, u_image = None, u_employee = Some ''e1''\<rparr>"

definition guest2 :: UserDoc where
  "guest2 = \<lparr>u_id = ''u2'', u_email = ''john@fire.io'', u_password = ''h2'', u_firstName = ''John'',
             u_lastName = ''Roe'', u_role = Guest, u_image = None, u_employee = Some ''e2''\<rparr>"

definition emp1 :: EmployeeDoc where
  "emp1 = \<lparr>e_id = ''e1'', e_firstName = ''Jane'', e_lastName = ''Doe'', e_department = None,
           e_salary = None, e_techStack = []\<rparr>"

definition emp2 :: EmployeeDoc where
  "emp2 = \<lparr>e_id = ''e2'', e_firstName = ''John'', e_lastName = ''Roe'', e_department = None,
           e_salary = None, e_techStack = []\<rparr>"

definition store0 :: mongo where
  "store0 = \<lparr>UserModel = [admin0, guest1, guest2], EmployeeModel = [emp1, emp2],
             TokenModel = [], ProjectModel = []\<rparr>"

definition padmin :: User where
  "padmin = \<lparr>pu_id = ''a1'', pu_email = ''root@fire.io'', pu_firstName = ''Ada'',
             pu_lastName = ''Root'', pu_password = ''h'', pu_role = Admin, pu_image = None\<rparr>"

definition pguest :: User where
  "pguest = \<lparr>pu_id = ''g1'', pu_email = ''jane@fire.io'', pu_firstName = ''Jane'',
             pu_lastName = ''Doe'', pu_password = ''k'', pu_role = Guest, pu_image = None\<rparr>"

definition pstore0 :: prisma where
  "pstore0 = \<lparr>prisma_user = [padmin, pguest], prisma_employee = []\<rparr>"

definition env0 :: Env where
  "env0 = \<lparr>bcrypt_hash = (\<lambda>p. ''#'' @ p), bcrypt_compare = (\<lambda>p h. h = ''#'' @ p),
           jwt_sign = (\<lambda>u n. Inr (''jwt.'' @ u)), imageData = None,
           new_employee_id = ''e9'', new_user_id = ''u9'',
           employee_create_error = None, user_create_error = None, default_role = Guest\<rparr>"

definition env_user_rejected :: Env where
  "env_user_rejected = env0\<lparr>user_create_error := Some (Thrown ''ValidationError'')\<rparr>"

definition tok1 :: TokenDoc where
  "tok1 = \<lparr>t_id = ''t1'', t_user = ''u1'', t_token = ''abc'', t_expirationTime = 3600000\<rparr>"

definition proj1 :: ProjectDoc where
  "proj1 = \<lparr>p_id = ''p1'', p_name = ''Fire'',
            p_employees = [\<lparr>m_employee = ''e1'', m_partTime = False\<rparr>,
                           \<lparr>m_employee = ''e2'', m_partTime = True\<rparr>]\<rparr>"

definition proj2 :: ProjectDoc where
  "proj2 = \<lparr>p_id = ''p2'', p_name = ''Ice'',
            p_employees = [\<lparr>m_employee = ''e1'', m_partTime = True\<rparr>]\<rparr>"

definition store1 :: mongo where
  "store1 = \<lparr>UserModel = [guest1, guest2], EmployeeModel = [emp1, emp2],
             TokenModel = [tok1], ProjectModel = [proj1, proj2]\<rparr>"

text \<open>A case folding: the letters A to Z.\<close>

definition lower :: "char \<Rightarrow> char" where
  "lower c =
     (case map_of (zip ''ABCDEFGHIJKLMNOPQRSTUVWXYZ'' ''abcdefghijklmnopqrstuvwxyz'') c of
        None \<Rightarrow> c
      | Some l \<Rightarrow> l)"

text \<open>Four filter objects on a boolean, in the text a request would carry.\<close>

definition boolean_filter_object :: "string \<Rightarrow> (bool \<Rightarrow> bool) option" where
  \<open>boolean_filter_object x =
     (if x = ''{"not":true}'' \<or> x = ''{"equals":false}'' then Some (\<lambda>stored. \<not> stored)
      else if x = ''{"not":false}'' \<or> x = ''{"equals":true}'' then Some (\<lambda>stored. stored)
      else None)\<close>

definition schema0 :: Schema where
  "schema0 = \<lparr>Currency = [''USD'', ''EUR''], Department = [''Dev'', ''HR''],
              TechStack = [''FullStack'', ''Backend''], order_rows = (\<lambda>f d. None),
              lower_case = lower, isEmployed_object = boolean_filter_object\<rparr>"

definition jane :: Employee where
  "jane = \<lparr>emp_id = ''e1'', emp_firstName = ''Jane'', emp_lastName = ''Doe'', emp_department = ''Dev'',
           emp_salary = 100, emp_currency = ''USD'', emp_techStack = ''Backend'',
           emp_isEmployed = False, emp_isEmployedDate = 1000\<rparr>"

definition mary :: Employee where
  "mary = \<lparr>emp_id = ''e2'', emp_firstName = ''Mary Jane Doe'', emp_lastName = ''Smith'', emp_department = ''HR'',
           emp_salary = 200, emp_currency = ''EUR'', emp_techStack = ''FullStack'',
           emp_isEmployed = True, emp_isEmployedDate = 2000\<rparr>"

definition pstore1 :: prisma where
  "pstore1 = \<lparr>prisma_user = [padmin, pguest], prisma_employee = [jane, mary]\<rparr>"

definition query0 :: GetEmployeesQuery where
  "query0 = \<lparr>q_searchTerm = None, q_currency = None, q_department = None, q_techStack = None,
             q_isEmployed = None, q_orderByField = None, q_orderDirection = None,
             q_take = None, q_page = None\<rparr>"

section \<open>Collections\<close>

text \<open>Facts about \<^const>\<open>find\<close>, \<^const>\<open>deleteOne\<close> and \<^const>\<open>save\<close> on collections with unique keys.\<close>

lemma set_deleteOne_subset: "set (deleteOne key i xs) \<subseteq> set xs"
  by (induction xs) auto

lemma set_deleteOne_distinct:
  "distinct (map key xs) \<Longrightarrow> x \<in> set xs \<Longrightarrow> set (deleteOne key (key x) xs) = set xs - {x}"
proof (induction xs)
  case Nil
  then show ?case by simp
next
  case (Cons y ys)
  show ?case
  proof (cases "key y = key x")
    case True
    with Cons.prems have "y = x" by (auto simp: image_iff)
    with Cons.prems show ?thesis by auto
  next
    case False
    with Cons show ?thesis by auto
  qed
qed

lemma deleteOne_key_gone:
  "distinct (map key xs) \<Longrightarrow> y \<in> set (deleteOne key i xs) \<Longrightarrow> key y \<noteq> i"
proof (induction xs)
  case Nil
  then show ?case by simp
next
  case (Cons x xs)
  then show ?case
    using set_deleteOne_subset [of key i xs] by (auto split: if_splits simp: image_iff)
qed

lemma map_key_save: "map key (save key d xs) = map key xs"
  by (induction xs) auto

lemma set_save_distinct:
  "distinct (map key xs) \<Longrightarrow> y \<in> set (save key d xs) \<Longrightarrow> y = d \<or> (y \<in> set xs \<and> key y \<noteq> key d)"
proof (induction xs)
  case Nil
  then show ?case by simp
next
  case (Cons x xs)
  then show ?case by (auto split: if_splits simp: image_iff)
qed

lemma find_save:
  "find (\<lambda>u. key u = i) xs = Some x \<Longrightarrow> key d = i \<Longrightarrow> find (\<lambda>u. key u = i) (save key d xs) = Some d"
  by (induction xs) (auto split: if_splits)

lemma find_key:
  "find (\<lambda>u. key u = i) xs = Some x \<Longrightarrow> x \<in> set xs \<and> key x = i"
  by (induction xs) (auto split: if_splits)

lemma find_pred:
  "find P xs = Some x \<Longrightarrow> x \<in> set xs \<and> P x"
  by (induction xs) (auto split: if_splits)

lemma distinct_image_inj:
  "distinct (filter P (map f xs)) \<Longrightarrow> x \<in> set xs \<Longrightarrow> y \<in> set xs \<Longrightarrow> f x = f y \<Longrightarrow> P (f x) \<Longrightarrow> x = y"
proof (induction xs)
  case Nil
  then show ?case by simp
next
  case (Cons z zs)
  have tl: "distinct (filter P (map f zs))"
    using Cons.prems(1) by (simp split: if_splits)
  have fresh: "P (f z) \<Longrightarrow> w \<in> set zs \<Longrightarrow> f w \<noteq> f z" for w
    using Cons.prems(1) by (auto simp: image_iff)
  show ?case
  proof (cases "x = z")
    case xz: True
    show ?thesis
    proof (cases "y = z")
      case True
      with xz show ?thesis by simp
    next
      case False
      with Cons.prems(3) have "y \<in> set zs" by simp
      with fresh [of y] xz Cons.prems(4,5) show ?thesis by simp
    qed
  next
    case xz: False
    with Cons.prems(2) have xin: "x \<in> set zs" by simp
    show ?thesis
    proof (cases "y = z")
      case True
      with fresh [of x] xin Cons.prems(4,5) show ?thesis by simp
    next
      case False
      with Cons.prems(3) have "y \<in> set zs" by simp
      from Cons.IH [OF tl xin this Cons.prems(4,5)] show ?thesis .
    qed
  qed
qed

lemma distinct_map_inj:
  "distinct (map f xs) \<Longrightarrow> x \<in> set xs \<Longrightarrow> y \<in> set xs \<Longrightarrow> f x = f y \<Longrightarrow> x = y"
  by (induction xs) (auto simp: image_iff)

lemma deleteOne_append_fresh:
  "i \<notin> key ` set xs \<Longrightarrow> key d = i \<Longrightarrow> deleteOne key i (xs @ [d]) = xs"
  by (induction xs) auto

section \<open>Deleting users: who may, and which targets\<close>

text \<open>
  C1, as stated, fails on the Prisma handler: there the guard on an Admin
  target is \<^verbatim>\<open>user.role === Role.Admin && user.id !== loggedInUser?.id\<close>, so an
  Admin who asks for their own deletion passes it and the record is removed
  with status 204.
\<close>

theorem admin_self_delete_counterexample:
  "deleteUser_prisma \<lparr>req_user = Some padmin, req_userId = ''a1''\<rparr>
     \<lparr>prisma_user = [padmin], prisma_employee = []\<rparr>
   = (Inr 204, \<lparr>prisma_user = [], prisma_employee = []\<rparr>)"
  by (simp add: deleteUser_prisma_def padmin_def)

text \<open>
  C1 (amended): a delete-user request whose target has role Admin fails with
  403 and leaves the store as it was, for every caller in the Mongoose
  handler, and for every caller other than that Admin in the Prisma handler.
\<close>

theorem admin_target_forbidden:
  "(find (\<lambda>u. u_id u = params_userId req) (UserModel s) = Some user \<and> u_role user = Admin
      \<longrightarrow> deleteUser_mongoose req s = (Inl (HttpError 403 ''Cannot delete an admin user.''), s))
   \<and> (find (\<lambda>u. pu_id u = req_userId preq) (prisma_user ps) = Some puser \<and> pu_role puser = Admin
        \<and> map_option pu_id (req_user preq) \<noteq> Some (req_userId preq)
      \<longrightarrow> (\<exists>m. deleteUser_prisma preq ps = (Inl (HttpError 403 m), ps)))"
proof (intro conjI impI)
  assume "find (\<lambda>u. u_id u = params_userId req) (UserModel s) = Some user \<and> u_role user = Admin"
  then show "deleteUser_mongoose req s = (Inl (HttpError 403 ''Cannot delete an admin user.''), s)"
    by (simp add: deleteUser_mongoose_def)
next
  assume a: "find (\<lambda>u. pu_id u = req_userId preq) (prisma_user ps) = Some puser \<and> pu_role puser = Admin
        \<and> map_option pu_id (req_user preq) \<noteq> Some (req_userId preq)"
  then have "pu_id puser = req_userId preq"
    by (auto simp: find_Some_iff)
  with a show "\<exists>m. deleteUser_prisma preq ps = (Inl (HttpError 403 m), ps)"
    by (auto simp: deleteUser_prisma_def Let_def)
qed

theorem admin_target_forbidden_witness:
  "deleteUser_mongoose \<lparr>params_userId = ''u0'', body_userId = None, req_caller = Some admin0\<rparr> store0
     = (Inl (HttpError 403 ''Cannot delete an admin user.''), store0)
   \<and> (\<exists>m. deleteUser_prisma \<lparr>req_user = Some pguest, req_userId = ''a1''\<rparr> pstore0
            = (Inl (HttpError 403 m), pstore0))"
  using admin_target_forbidden
          [of "\<lparr>params_userId = ''u0'', body_userId = None, req_caller = Some admin0\<rparr>" store0 admin0
              "\<lparr>req_user = Some pguest, req_userId = ''a1''\<rparr>" pstore0 padmin]
  by (simp add: store0_def pstore0_def admin0_def padmin_def pguest_def)

text \<open>
  C2, as stated, fails on the Mongoose handler, which never consults the
  caller: a Guest (here \<^verbatim>\<open>u2\<close>, also named in the body) deletes another Guest,
  with that user's employee.
\<close>

theorem other_guest_deletes_counterexample:
  "deleteUser_mongoose
     \<lparr>params_userId = ''u1'', body_userId = Some ''u2'', req_caller = Some guest2\<rparr>
     \<lparr>UserModel = [guest1, guest2], EmployeeModel = [emp1, emp2], TokenModel = [], ProjectModel = []\<rparr>
   = (Inr (200, ''User deleted successfully.''),
      \<lparr>UserModel = [guest2], EmployeeModel = [emp2], TokenModel = [], ProjectModel = []\<rparr>)"
  by (simp add: deleteUser_mongoose_def guest1_def guest2_def emp1_def emp2_def)

text \<open>
  C2 (amended): in the Prisma handler a delete-user request succeeds only if
  the caller is the target or has role Admin; any other caller receives 403
  and the store is unchanged; and the request is refused with 403 exactly
  when \<^verbatim>\<open>updateUser\<close> refuses the same caller on the same target with 403. The
  Mongoose handler refuses with 403, deleting nothing, a request whose body
  names the target's own id.
\<close>

theorem delete_authorization:
  "(fst (deleteUser_prisma preq ps) = Inr st
      \<longrightarrow> map_option pu_id (req_user preq) = Some (req_userId preq)
          \<or> map_option pu_role (req_user preq) = Some Admin)
   \<and> (map_option pu_id (req_user preq) \<noteq> Some (req_userId preq)
        \<and> map_option pu_role (req_user preq) \<noteq> Some Admin
      \<longrightarrow> deleteUser_prisma preq ps
          = (Inl (HttpError 403 ''This user is not allowed to delete other users.''), ps))
   \<and> (uu_user ureq = req_user preq \<and> uu_userId ureq = req_userId preq
      \<longrightarrow> ((\<exists>m. fst (updateUser pattern_test hash ureq ps) = Inl (HttpError 403 m))
           \<longleftrightarrow> (\<exists>m. fst (deleteUser_prisma preq ps) = Inl (HttpError 403 m))))
   \<and> (find (\<lambda>u. u_id u = params_userId req) (UserModel s) = Some user
        \<and> body_userId req = Some (params_userId req)
      \<longrightarrow> (\<exists>m. deleteUser_mongoose req s = (Inl (HttpError 403 m), s)))"
proof (intro conjI impI)
  assume "fst (deleteUser_prisma preq ps) = Inr st"
  then show "map_option pu_id (req_user preq) = Some (req_userId preq)
          \<or> map_option pu_role (req_user preq) = Some Admin"
    by (auto simp: deleteUser_prisma_def Let_def split: if_splits)
next
  assume "map_option pu_id (req_user preq) \<noteq> Some (req_userId preq)
        \<and> map_option pu_role (req_user preq) \<noteq> Some Admin"
  then show "deleteUser_prisma preq ps
          = (Inl (HttpError 403 ''This user is not allowed to delete other users.''), ps)"
    by (simp add: deleteUser_prisma_def Let_def)
next
  assume a: "uu_user ureq = req_user preq \<and> uu_userId ureq = req_userId preq"
  show "(\<exists>m. fst (updateUser pattern_test hash ureq ps) = Inl (HttpError 403 m))
           \<longleftrightarrow> (\<exists>m. fst (deleteUser_prisma preq ps) = Inl (HttpError 403 m))"
    using a by (auto simp: updateUser_def deleteUser_prisma_def Let_def split: option.splits if_splits)
next
  assume "find (\<lambda>u. u_id u = params_userId req) (UserModel s) = Some user
        \<and> body_userId req = Some (params_userId req)"
  then show "\<exists>m. deleteUser_mongoose req s = (Inl (HttpError 403 m), s)"
    by (simp add: deleteUser_mongoose_def Let_def)
qed

theorem delete_authorization_witness:
  "fst (deleteUser_prisma \<lparr>req_user = Some padmin, req_userId = ''g1''\<rparr> pstore0) = Inr 204
   \<and> map_option pu_role (Some padmin) = Some Admin
   \<and> deleteUser_prisma \<lparr>req_user = Some pguest, req_userId = ''a1''\<rparr> pstore0
       = (Inl (HttpError 403 ''This user is not allowed to delete other users.''), pstore0)
   \<and> (\<exists>m. fst (updateUser (\<lambda>x. True) (\<lambda>x. x)
                  \<lparr>uu_user = Some pguest, uu_userId = ''a1'', uu_email = JUndefined,
                   uu_firstName = JStr ''Eve'', uu_lastName = JUndefined, uu_password = JUndefined,
                   uu_role = JUndefined, uu_file = False\<rparr> pstore0) = Inl (HttpError 403 m))
   \<and> (\<exists>m. deleteUser_mongoose \<lparr>params_userId = ''u1'', body_userId = Some ''u1'', req_caller = Some guest1\<rparr> store0
            = (Inl (HttpError 403 m), store0))"
proof -
  let ?adm = "\<lparr>req_user = Some padmin, req_userId = ''g1''\<rparr>"
  let ?gst = "\<lparr>req_user = Some pguest, req_userId = ''a1''\<rparr>"
  let ?upd = "\<lparr>uu_user = Some pguest, uu_userId = ''a1'', uu_email = JUndefined,
               uu_firstName = JStr ''Eve'', uu_lastName = JUndefined, uu_password = JUndefined,
               uu_role = JUndefined, uu_file = False\<rparr>"
  let ?own = "\<lparr>params_userId = ''u1'', body_userId = Some ''u1'', req_caller = Some guest1\<rparr>"
  have ok: "fst (deleteUser_prisma ?adm pstore0) = Inr 204"
    by (simp add: deleteUser_prisma_def pstore0_def padmin_def pguest_def)
  have role: "map_option pu_role (req_user ?adm) = Some Admin"
    by (simp add: padmin_def)
  have other: "map_option pu_id (req_user ?gst) \<noteq> Some (req_userId ?gst)
               \<and> map_option pu_role (req_user ?gst) \<noteq> Some Admin"
    by (simp add: pguest_def)
  have same: "uu_user ?upd = req_user ?gst \<and> uu_userId ?upd = req_userId ?gst"
    by simp
  have own: "find (\<lambda>u. u_id u = params_userId ?own) (UserModel store0) = Some guest1
             \<and> body_userId ?own = Some (params_userId ?own)"
    by (simp add: store0_def admin0_def guest1_def)
  note t = delete_authorization [of ?gst pstore0 204 ?upd "\<lambda>x. True" "\<lambda>x. x" ?own store0 guest1]
  from t other have refused: "deleteUser_prisma ?gst pstore0
       = (Inl (HttpError 403 ''This user is not allowed to delete other users.''), pstore0)"
    by blast
  then have "\<exists>m. fst (deleteUser_prisma ?gst pstore0) = Inl (HttpError 403 m)"
    by simp
  with t same have upd: "\<exists>m. fst (updateUser (\<lambda>x. True) (\<lambda>x. x) ?upd pstore0) = Inl (HttpError 403 m)"
    by blast
  from t own have mine: "\<exists>m. deleteUser_mongoose ?own store0 = (Inl (HttpError 403 m), store0)"
    by blast
  from ok role refused upd mine show ?thesis
    by simp
qed

section \<open>Login failures\<close>

text \<open>
  C9: two login attempts that carry both fields, one with an email no user
  has and one with a known email whose password does not match, both end in
  401 with the same message, so the two replies are equal.
\<close>

theorem login_failures_identical:
  assumes "\<not> missing (l_email r1)" "\<not> missing (l_password r1)"
      and "\<not> missing (l_email r2)" "\<not> missing (l_password r2)"
      and "\<forall>u \<in> set (UserModel s1). Some (u_email u) \<noteq> l_email r1"
      and "find (\<lambda>u. Some (u_email u) = l_email r2) (UserModel s2) = Some user"
      and "l_password r2 = Some p" "\<not> bcrypt_compare env2 p (u_password user)"
  shows "loginUser env1 r1 s1 = Inl (HttpError 401 ''Invalid email or password.'')
       \<and> loginUser env2 r2 s2 = Inl (HttpError 401 ''Invalid email or password.'')"
proof
  from assms(1,2) obtain e1 p1 where r1: "l_email r1 = Some e1" "l_password r1 = Some p1"
    by (auto simp: missing_def split: option.splits)
  from assms(5) r1 have "find (\<lambda>u. u_email u = e1) (UserModel s1) = None"
    by (auto simp: find_None_iff)
  with assms(1,2) r1 show "loginUser env1 r1 s1 = Inl (HttpError 401 ''Invalid email or password.'')"
    by (simp add: loginUser_def)
next
  from assms(3) obtain e2 where r2: "l_email r2 = Some e2"
    by (auto simp: missing_def split: option.splits)
  from assms(6) r2 have "find (\<lambda>u. u_email u = e2) (UserModel s2) = Some user"
    by simp
  with assms r2 show "loginUser env2 r2 s2 = Inl (HttpError 401 ''Invalid email or password.'')"
    by (simp add: loginUser_def)
qed

theorem login_failures_identical_witness:
  "loginUser env0 \<lparr>l_email = Some ''nobody@fire.io'', l_password = Some ''pw'', l_rememberMe = None\<rparr> store0
     = Inl (HttpError 401 ''Invalid email or password.'')
   \<and> loginUser env0 \<lparr>l_email = Some ''jane@fire.io'', l_password = Some ''wrong'', l_rememberMe = None\<rparr> store0
     = Inl (HttpError 401 ''Invalid email or password.'')"
  using login_failures_identical
          [of "\<lparr>l_email = Some ''nobody@fire.io'', l_password = Some ''pw'', l_rememberMe = None\<rparr>"
              "\<lparr>l_email = Some ''jane@fire.io'', l_password = Some ''wrong'', l_rememberMe = None\<rparr>"
              store0 store0 guest1 "''wrong''" env0 env0]
  by (simp add: missing_def store0_def admin0_def guest1_def guest2_def env0_def)


section \<open>Deleting a user cascades\<close>

text \<open>
  The loop leaves no project with an entry for the employee, provided every
  project that has one is among those the loop visits.
\<close>

lemma remove_memberships_clean:
  "distinct (map p_id coll) \<Longrightarrow> (\<forall>q \<in> set coll. has_member eid q \<longrightarrow> p_id q \<in> p_id ` set found)
   \<Longrightarrow> q \<in> set (remove_memberships eid found coll) \<Longrightarrow> \<not> has_member eid q"
proof (induction found arbitrary: coll)
  case Nil
  then show ?case by auto
next
  case (Cons f rest)
  let ?f' = "f\<lparr>p_employees := filter (\<lambda>employeeObj. m_employee employeeObj \<noteq> eid) (p_employees f)\<rparr>"
  let ?coll' = "save p_id ?f' coll"
  have d: "distinct (map p_id ?coll')"
    using Cons.prems(1) by (simp add: map_key_save)
  have clean: "\<not> has_member eid ?f'"
    by (simp add: has_member_def list_ex_iff)
  have inv: "\<forall>q \<in> set ?coll'. has_member eid q \<longrightarrow> p_id q \<in> p_id ` set rest"
  proof (intro ballI impI)
    fix q assume q: "q \<in> set ?coll'" and h: "has_member eid q"
    from set_save_distinct [OF Cons.prems(1) q] clean h
    have "q \<in> set coll" and ne: "p_id q \<noteq> p_id f" by auto
    with Cons.prems(2) h have "p_id q \<in> p_id ` set (f # rest)" by blast
    with ne show "p_id q \<in> p_id ` set rest" by auto
  qed
  from Cons.prems(3) have "q \<in> set (remove_memberships eid rest ?coll')" by simp
  from Cons.IH [OF d inv this] show ?case .
qed


text \<open>What a successful \<^verbatim>\<open>deleteUser\<close> did, and why no other user links to the employee.\<close>

lemma deleteUser_success:
  assumes ok: "deleteUser_mongoose req s = (Inr r, s')"
  shows "\<exists>user employee.
           find (\<lambda>u. u_id u = params_userId req) (UserModel s) = Some user
         \<and> u_employee user = Some (e_id employee)
         \<and> find (\<lambda>e. e_id e = e_id employee) (EmployeeModel s) = Some employee
         \<and> s' = s\<lparr>ProjectModel := remove_memberships (e_id employee)
                                     (filter (has_member (e_id employee)) (ProjectModel s)) (ProjectModel s),
                   UserModel := deleteOne u_id (u_id user) (UserModel s),
                   EmployeeModel := deleteOne e_id (e_id employee) (EmployeeModel s)\<rparr>"
proof -
  from ok obtain user where u: "find (\<lambda>u. u_id u = params_userId req) (UserModel s) = Some user"
    by (auto simp: deleteUser_mongoose_def Let_def split: option.splits)
  from ok u obtain ref where r: "u_employee user = Some ref"
    by (auto simp: deleteUser_mongoose_def Let_def split: option.splits if_splits)
  from ok u r obtain employee where e: "find (\<lambda>e. e_id e = ref) (EmployeeModel s) = Some employee"
    by (auto simp: deleteUser_mongoose_def Let_def split: option.splits if_splits)
  from find_key [OF e] have eid: "e_id employee = ref"
    by simp
  from ok u r e have "s' = s\<lparr>ProjectModel := remove_memberships (e_id employee)
                                     (filter (has_member (e_id employee)) (ProjectModel s)) (ProjectModel s),
                   UserModel := deleteOne u_id (u_id user) (UserModel s),
                   EmployeeModel := deleteOne e_id (e_id employee) (EmployeeModel s)\<rparr>"
    by (auto simp: deleteUser_mongoose_def Let_def split: if_splits)
  with u r e eid show ?thesis by auto
qed

lemma no_link_left:
  assumes du: "distinct (map u_id (UserModel s))" and one: "one_user_per_employee s"
      and uin: "user \<in> set (UserModel s)" and link: "u_employee user = Some eid"
      and v: "v \<in> set (deleteOne u_id (u_id user) (UserModel s))"
  shows "u_employee v \<noteq> Some eid"
proof
  assume a: "u_employee v = Some eid"
  from v set_deleteOne_distinct [OF du uin] have vin: "v \<in> set (UserModel s)" and vne: "v \<noteq> user"
    by auto
  from a link have "u_employee v = u_employee user" by simp
  from distinct_image_inj [OF one [unfolded one_user_per_employee_def] vin uin this] a
  have "v = user" by simp
  with vne show False by simp
qed

text \<open>
  C3: after a successful \<^verbatim>\<open>deleteUser\<close> (Mongoose handler) on a well-formed
  store, the user is gone, the employee the user was linked to is gone, no
  project keeps a membership entry for that employee, and no user keeps a
  link to it; all of it is the effect of the one call.
\<close>

theorem delete_cascades:
  assumes ok: "deleteUser_mongoose req s = (Inr r, s')"
      and ids: "unique_ids s" and one: "one_user_per_employee s"
  shows "\<exists>user employee.
           find (\<lambda>u. u_id u = params_userId req) (UserModel s) = Some user
         \<and> u_employee user = Some (e_id employee)
         \<and> find (\<lambda>e. e_id e = e_id employee) (EmployeeModel s) = Some employee
         \<and> (\<forall>u \<in> set (UserModel s'). u_id u \<noteq> u_id user)
         \<and> (\<forall>e \<in> set (EmployeeModel s'). e_id e \<noteq> e_id employee)
         \<and> (\<forall>p \<in> set (ProjectModel s'). \<forall>m \<in> set (p_employees p). m_employee m \<noteq> e_id employee)
         \<and> (\<forall>u \<in> set (UserModel s'). u_employee u \<noteq> Some (e_id employee))"
proof -
  from deleteUser_success [OF ok] obtain user employee where
    u: "find (\<lambda>u. u_id u = params_userId req) (UserModel s) = Some user"
    and r: "u_employee user = Some (e_id employee)"
    and e: "find (\<lambda>e. e_id e = e_id employee) (EmployeeModel s) = Some employee"
    and s': "s' = s\<lparr>ProjectModel := remove_memberships (e_id employee)
                                     (filter (has_member (e_id employee)) (ProjectModel s)) (ProjectModel s),
                   UserModel := deleteOne u_id (u_id user) (UserModel s),
                   EmployeeModel := deleteOne e_id (e_id employee) (EmployeeModel s)\<rparr>"
    by blast
  let ?eid = "e_id employee"
  from find_key [OF u] have uin: "user \<in> set (UserModel s)"
    by simp
  from ids have du: "distinct (map u_id (UserModel s))" and de: "distinct (map e_id (EmployeeModel s))"
    and dp: "distinct (map p_id (ProjectModel s))"
    by (auto simp: unique_ids_def)
  have c1: "\<forall>u \<in> set (UserModel s'). u_id u \<noteq> u_id user"
    using deleteOne_key_gone [OF du] s' by auto
  have c2: "\<forall>e \<in> set (EmployeeModel s'). e_id e \<noteq> ?eid"
    using deleteOne_key_gone [OF de] s' by auto
  have c3: "\<forall>p \<in> set (ProjectModel s'). \<forall>m \<in> set (p_employees p). m_employee m \<noteq> ?eid"
  proof (intro ballI)
    fix p m assume p: "p \<in> set (ProjectModel s')" and m: "m \<in> set (p_employees p)"
    from p s' have "p \<in> set (remove_memberships ?eid (filter (has_member ?eid) (ProjectModel s)) (ProjectModel s))"
      by simp
    from remove_memberships_clean [OF dp _ this] have "\<not> has_member ?eid p" by auto
    with m show "m_employee m \<noteq> ?eid" by (auto simp: has_member_def list_ex_iff)
  qed
  have c4: "\<forall>v \<in> set (UserModel s'). u_employee v \<noteq> Some ?eid"
    using no_link_left [OF du one uin r] s' by simp
  from u r e c1 c2 c3 c4 show ?thesis by auto
qed

theorem delete_cascades_witness:
  "unique_ids store1 \<and> one_user_per_employee store1
   \<and> deleteUser_mongoose \<lparr>params_userId = ''u1'', body_userId = None, req_caller = Some admin0\<rparr> store1
       = (Inr (200, ''User deleted successfully.''),
          \<lparr>UserModel = [guest2], EmployeeModel = [emp2], TokenModel = [tok1],
           ProjectModel = [proj1\<lparr>p_employees := [\<lparr>m_employee = ''e2'', m_partTime = True\<rparr>]\<rparr>,
                           proj2\<lparr>p_employees := []\<rparr>]\<rparr>)
   \<and> (\<exists>user employee.
         find (\<lambda>u. u_id u = ''u1'') (UserModel store1) = Some user
       \<and> u_employee user = Some (e_id employee)
       \<and> find (\<lambda>e. e_id e = e_id employee) (EmployeeModel store1) = Some employee)"
proof -
  let ?req = "\<lparr>params_userId = ''u1'', body_userId = None, req_caller = Some admin0\<rparr>"
  let ?after = "\<lparr>UserModel = [guest2], EmployeeModel = [emp2], TokenModel = [tok1],
           ProjectModel = [proj1\<lparr>p_employees := [\<lparr>m_employee = ''e2'', m_partTime = True\<rparr>]\<rparr>,
                           proj2\<lparr>p_employees := []\<rparr>]\<rparr>"
  have ids: "unique_ids store1"
    by (simp add: unique_ids_def store1_def guest1_def guest2_def emp1_def emp2_def tok1_def proj1_def proj2_def)
  have one: "one_user_per_employee store1"
    by (simp add: one_user_per_employee_def store1_def guest1_def guest2_def)
  have run: "deleteUser_mongoose ?req store1 = (Inr (200, ''User deleted successfully.''), ?after)"
    by (simp add: deleteUser_mongoose_def has_member_def store1_def guest1_def guest2_def emp1_def emp2_def
                  proj1_def proj2_def)
  from delete_cascades [OF run ids one]
  have "\<exists>user employee.
         find (\<lambda>u. u_id u = ''u1'') (UserModel store1) = Some user
       \<and> u_employee user = Some (e_id employee)
       \<and> find (\<lambda>e. e_id e = e_id employee) (EmployeeModel store1) = Some employee"
    by auto
  with ids one run show ?thesis by simp
qed

section \<open>Registration leaves no orphan employee\<close>

text \<open>
  C4: when a registration passes the checks, the employee is created (under
  an identifier no stored employee has) and the creation of the user then
  fails, the handler forwards that failure and the store is what it was
  before the request: the employee just created is deleted again.
\<close>

theorem register_no_orphan:
  assumes "r_email req = Some email" "email \<noteq> []" "r_password req = Some password" "password \<noteq> []"
      and "r_firstName req = Some firstName" "firstName \<noteq> []"
      and "r_lastName req = Some lastName" "lastName \<noteq> []"
      and "\<forall>u \<in> set (UserModel s). u_email u \<noteq> email"
      and "employee_create_error env = None"
      and "user_create_error env = Some err"
      and "new_employee_id env \<notin> e_id ` set (EmployeeModel s)"
  shows "\<exists>employee s1.
           EmployeeModel_create env
             \<lparr>e_id = [], e_firstName = firstName, e_lastName = lastName,
              e_department = r_department req, e_salary = r_salary req,
              e_techStack = r_techStack req\<rparr> s = Inr (employee, s1)
           \<and> employee \<in> set (EmployeeModel s1)
           \<and> registerUser env req s = (Inl err, s)"
proof -
  let ?doc = "\<lparr>e_id = new_employee_id env, e_firstName = firstName, e_lastName = lastName,
              e_department = r_department req, e_salary = r_salary req,
              e_techStack = r_techStack req\<rparr>"
  let ?s1 = "s\<lparr>EmployeeModel := EmployeeModel s @ [?doc]\<rparr>"
  have c: "EmployeeModel_create env
             \<lparr>e_id = [], e_firstName = firstName, e_lastName = lastName,
              e_department = r_department req, e_salary = r_salary req,
              e_techStack = r_techStack req\<rparr> s = Inr (?doc, ?s1)"
    using assms(10) by (simp add: EmployeeModel_create_def Let_def)
  have f: "find (\<lambda>u. u_email u = email) (UserModel s) = None"
    using assms(9) by (auto simp: find_None_iff)
  have d: "deleteOne e_id (new_employee_id env) (EmployeeModel s @ [?doc]) = EmployeeModel s"
    using assms(12) by (intro deleteOne_append_fresh) auto
  have "registerUser env req s = (Inl err, s)"
    using assms(1-8,11) c f d
    by (simp add: registerUser_def missing_def UserModel_create_def register_catch_def Let_def)
  with c show ?thesis by simp
qed


theorem register_no_orphan_witness:
  "new_employee_id env_user_rejected \<notin> e_id ` set (EmployeeModel store0)
   \<and> registerUser env_user_rejected
        \<lparr>r_email = Some ''new@fire.io'', r_password = Some ''pw'', r_firstName = Some ''Nia'',
         r_lastName = Some ''New'', r_role = None, r_department = Some ''Dev'', r_salary = Some 10,
         r_techStack = []\<rparr> store0
       = (Inl (Thrown ''ValidationError''), store0)"
proof -
  let ?req = "\<lparr>r_email = Some ''new@fire.io'', r_password = Some ''pw'', r_firstName = Some ''Nia'',
         r_lastName = Some ''New'', r_role = None, r_department = Some ''Dev'', r_salary = Some 10,
         r_techStack = []\<rparr>"
  have fresh: "new_employee_id env_user_rejected \<notin> e_id ` set (EmployeeModel store0)"
    by (simp add: env_user_rejected_def env0_def store0_def emp1_def emp2_def)
  have unknown: "\<forall>u \<in> set (UserModel store0). u_email u \<noteq> ''new@fire.io''"
    by (simp add: store0_def admin0_def guest1_def guest2_def)
  have "\<exists>employee s1.
           EmployeeModel_create env_user_rejected
             \<lparr>e_id = [], e_firstName = ''Nia'', e_lastName = ''New'',
              e_department = r_department ?req, e_salary = r_salary ?req,
              e_techStack = r_techStack ?req\<rparr> store0 = Inr (employee, s1)
           \<and> employee \<in> set (EmployeeModel s1)
           \<and> registerUser env_user_rejected ?req store0 = (Inl (Thrown ''ValidationError''), store0)"
    by (rule register_no_orphan [where email = "''new@fire.io''" and password = "''pw''"])
       (use fresh unknown in \<open>simp_all add: env_user_rejected_def env0_def\<close>)
  with fresh show ?thesis by blast
qed

section \<open>A reset token is used once\<close>

text \<open>
  C7: a successful \<^verbatim>\<open>resetPassword\<close> stores the hash of the new password in
  the user's record and removes the token record, so that on a store with
  unique identifiers and one record per user and token string a second
  request with the same user id and token, whatever password it brings, ends
  in 400 and leaves the store, the password included, unchanged.
\<close>

theorem reset_token_single_use:
  assumes ok: "resetPassword env req s = (Inr msg, s1)"
      and ids: "unique_ids s" and one: "one_record_per_token s"
      and again: "rp_userId req2 = rp_userId req" "rp_token req2 = rp_token req"
  shows "\<exists>user password.
           find (\<lambda>u. u_id u = rp_userId req) (UserModel s) = Some user
         \<and> rp_password req = Some password
         \<and> find (\<lambda>u. u_id u = rp_userId req) (UserModel s1) = Some (user\<lparr>u_password := bcrypt_hash env password\<rparr>)
         \<and> (\<forall>t \<in> set (TokenModel s1). \<not> (t_user t = rp_userId req \<and> t_token t = rp_token req))
         \<and> resetPassword env2 req2 s1 = (Inl (HttpError 400 ''Link is invalid or has expired.''), s1)"
proof -
  from ok obtain user where u: "find (\<lambda>u. u_id u = rp_userId req) (UserModel s) = Some user"
    by (auto simp: resetPassword_def Let_def split: option.splits)
  from find_pred [OF u] have uid: "u_id user = rp_userId req" by simp
  from ok u obtain tokenObj where
    t: "find (\<lambda>t. t_user t = u_id user \<and> t_token t = rp_token req) (TokenModel s) = Some tokenObj"
    by (auto simp: resetPassword_def Let_def split: option.splits)
  from ok u t obtain password where p: "rp_password req = Some password" "password \<noteq> []"
    by (auto simp: resetPassword_def Let_def split: option.splits if_splits)
  let ?user' = "user\<lparr>u_password := bcrypt_hash env password\<rparr>"
  from ok u t p have s1: "s1 = s\<lparr>UserModel := save u_id ?user' (UserModel s),
                                 TokenModel := deleteOne t_id (t_id tokenObj) (TokenModel s)\<rparr>"
    by (auto simp: resetPassword_def Let_def)
  from find_pred [OF t] have tin: "tokenObj \<in> set (TokenModel s)"
    and tu: "t_user tokenObj = u_id user" and tt: "t_token tokenObj = rp_token req"
    by auto
  from ids have dt: "distinct (map t_id (TokenModel s))"
    by (simp add: unique_ids_def)
  have u1: "find (\<lambda>u. u_id u = rp_userId req) (UserModel s1) = Some ?user'"
    using find_save [OF u, of ?user'] uid s1 by simp
  have gone: "\<forall>t \<in> set (TokenModel s1). \<not> (t_user t = rp_userId req \<and> t_token t = rp_token req)"
  proof (intro ballI notI)
    fix x assume x: "x \<in> set (TokenModel s1)" and m: "t_user x = rp_userId req \<and> t_token x = rp_token req"
    from x s1 set_deleteOne_distinct [OF dt tin] have xin: "x \<in> set (TokenModel s)" and ne: "x \<noteq> tokenObj"
      by auto
    from m tu tt uid have "(t_user x, t_token x) = (t_user tokenObj, t_token tokenObj)" by simp
    from distinct_map_inj [OF one [unfolded one_record_per_token_def] xin tin this] ne
    show False by simp
  qed
  then have none: "find (\<lambda>t. t_user t = u_id ?user' \<and> t_token t = rp_token req2) (TokenModel s1) = None"
    using uid again by (auto simp: find_None_iff)
  have "resetPassword env2 req2 s1 = (Inl (HttpError 400 ''Link is invalid or has expired.''), s1)"
    using u1 none again by (simp add: resetPassword_def Let_def)
  with u p u1 gone show ?thesis by auto
qed


theorem reset_token_single_use_witness:
  "unique_ids store1 \<and> one_record_per_token store1
   \<and> resetPassword env0 \<lparr>rp_userId = ''u1'', rp_token = ''abc'', rp_password = Some ''new''\<rparr> store1
       = (Inr ''Your password has been reset successfully.'',
          store1\<lparr>UserModel := [guest1\<lparr>u_password := ''#new''\<rparr>, guest2], TokenModel := []\<rparr>)
   \<and> resetPassword env0 \<lparr>rp_userId = ''u1'', rp_token = ''abc'', rp_password = Some ''newer''\<rparr>
        (store1\<lparr>UserModel := [guest1\<lparr>u_password := ''#new''\<rparr>, guest2], TokenModel := []\<rparr>)
       = (Inl (HttpError 400 ''Link is invalid or has expired.''),
          store1\<lparr>UserModel := [guest1\<lparr>u_password := ''#new''\<rparr>, guest2], TokenModel := []\<rparr>)"
proof -
  let ?req = "\<lparr>rp_userId = ''u1'', rp_token = ''abc'', rp_password = Some ''new''\<rparr>"
  let ?req2 = "\<lparr>rp_userId = ''u1'', rp_token = ''abc'', rp_password = Some ''newer''\<rparr>"
  let ?after = "store1\<lparr>UserModel := [guest1\<lparr>u_password := ''#new''\<rparr>, guest2], TokenModel := []\<rparr>"
  have ids: "unique_ids store1"
    by (simp add: unique_ids_def store1_def guest1_def guest2_def emp1_def emp2_def tok1_def proj1_def proj2_def)
  have one: "one_record_per_token store1"
    by (simp add: one_record_per_token_def store1_def tok1_def)
  have run: "resetPassword env0 ?req store1 = (Inr ''Your password has been reset successfully.'', ?after)"
    by (simp add: resetPassword_def env0_def store1_def guest1_def guest2_def tok1_def)
  have same: "rp_userId ?req2 = rp_userId ?req" "rp_token ?req2 = rp_token ?req"
    by simp_all
  from reset_token_single_use [OF run ids one same, of env0]
  have "resetPassword env0 ?req2 ?after = (Inl (HttpError 400 ''Link is invalid or has expired.''), ?after)"
    by blast
  with ids one run show ?thesis by simp
qed

section \<open>Searching employees\<close>





text \<open>
  \<^const>\<open>str_includes\<close> is the substring test, and on a term without \<^verbatim>\<open>%\<close>, \<^verbatim>\<open>_\<close> and
  backslash the store's test is the substring test on the folded texts.
\<close>

lemma starts_with_iff: "starts_with t n \<longleftrightarrow> (\<exists>post. t = n @ post)"
  by (induction t n rule: starts_with.induct) auto

lemma str_includes_iff: "str_includes h n \<longleftrightarrow> (\<exists>pre post. h = pre @ n @ post)"
proof (induction h)
  case Nil
  then show ?case by auto
next
  case (Cons x xs)
  show ?case
  proof
    assume "str_includes (x # xs) n"
    then consider "starts_with (x # xs) n" | "str_includes xs n" by auto
    then show "\<exists>pre post. x # xs = pre @ n @ post"
    proof cases
      case 1
      then obtain post where "x # xs = [] @ n @ post" by (auto simp: starts_with_iff)
      then show ?thesis by blast
    next
      case 2
      with Cons.IH obtain pre post where "xs = pre @ n @ post" by blast
      then have "x # xs = (x # pre) @ n @ post" by simp
      then show ?thesis by blast
    qed
  next
    assume "\<exists>pre post. x # xs = pre @ n @ post"
    then obtain pre post where eq: "x # xs = pre @ n @ post" by blast
    show "str_includes (x # xs) n"
    proof (cases pre)
      case Nil
      with eq have "starts_with (x # xs) n" by (auto simp: starts_with_iff)
      then show ?thesis by simp
    next
      case (Cons y ys)
      with eq have "xs = ys @ n @ post" by simp
      with Cons.IH have "str_includes xs n" by blast
      then show ?thesis by simp
    qed
  qed
qed

lemma like_match_lits: "like_match (map Lit n @ [AnyRun]) t = starts_with t n"
proof (induction n arbitrary: t)
  case Nil
  show ?case by (induction t) auto
next
  case (Cons c cs)
  then show ?case by (cases t) auto
qed

lemma like_match_includes: "like_match (AnyRun # map Lit n @ [AnyRun]) t = str_includes t n"
proof (induction t)
  case Nil
  show ?case by (cases n) (auto simp: like_match_lits)
next
  case (Cons x xs)
  then show ?case by (simp add: like_match_lits)
qed

lemma like_pattern_step:
  "c \<noteq> CHR 0x5C \<Longrightarrow> ys \<noteq> [] \<Longrightarrow> like_pattern (c # ys) = like_token_of c # like_pattern ys"
  by (cases ys) auto

lemma like_pattern_plain: "plain x \<Longrightarrow> like_pattern (x @ ''%'') = map Lit x @ [AnyRun]"
proof (induction x)
  case Nil
  show ?case by (simp add: like_token_of_def)
next
  case (Cons c cs)
  then have c: "c \<noteq> CHR 0x5C" "like_token_of c = Lit c" and cs: "plain cs"
    by (auto simp: plain_def like_token_of_def)
  from like_pattern_step [OF c(1), of "cs @ ''%''"] c(2) Cons.IH [OF cs]
  show ?case by simp
qed

lemma contains_plain:
  assumes "plain x"
  shows "contains_insensitive lc field x = case_insensitive_substring lc x field"
proof -
  have "like_pattern (CHR ''%'' # x @ ''%'') = like_token_of CHR ''%'' # like_pattern (x @ ''%'')"
    by (rule like_pattern_step) simp_all
  with like_pattern_plain [OF assms]
  have "map (fold_token lc) (like_pattern (CHR ''%'' # x @ ''%'')) = AnyRun # map Lit (map lc x) @ [AnyRun]"
    by (simp add: like_token_of_def comp_def)
  then have "contains_insensitive lc field x
             = like_match (AnyRun # map Lit (map lc x) @ [AnyRun]) (map lc field)"
    by (simp only: contains_insensitive_def)
  then show ?thesis
    by (simp only: case_insensitive_substring_def like_match_includes)
qed

lemma contains_empty: "contains_insensitive lc field [] = True"
  using contains_plain [of "[]" lc field]
  by (simp add: plain_def case_insensitive_substring_def) (cases "map lc field"; simp)




text \<open>What a successful \<^verbatim>\<open>getEmployees\<close> computed, field by field.\<close>

lemma getEmployees_unfold:
  assumes ok: "getEmployees sch q s = Inr res" and w: "where_of sch q = Inr w"
  shows "\<exists>found.
           findMany sch w (orderBy_of q)
             (if skip_of q < int (length (filter (where_matches sch w) (prisma_employee s)))
              then Some (skip_of q) else None)
             (q_take q) (prisma_employee s) = Inr found
         \<and> employees res = found
         \<and> pageInfo_total res
             = (if length found > 0 then int (length (filter (where_matches sch w) (prisma_employee s))) else 0)
         \<and> pageInfo_lastPage res
             = (case q_take q of
                  Some take_q \<Rightarrow> Math_ceil_div (pageInfo_total res) take_q
                | None \<Rightarrow> if pageInfo_total res > 0 then Num 1 else Num 0)
         \<and> pageInfo_currentPage res
             = (case q_page q of
                  Some page \<Rightarrow> if js_gt page (pageInfo_lastPage res) then 1 else page
                | None \<Rightarrow> if pageInfo_total res > 0 then 1 else 0)
         \<and> pageInfo_perPage res = (case q_take q of Some take_q \<Rightarrow> take_q | None \<Rightarrow> pageInfo_total res)"
proof -
  let ?count = "length (filter (where_matches sch w) (prisma_employee s))"
  from ok w have v: "valid_where sch w"
    by (auto simp: getEmployees_def employee_count_def Let_def split: if_splits sum.splits)
  then have c: "employee_count sch w (prisma_employee s) = Inr ?count"
    by (simp add: employee_count_def)
  from ok w c obtain found where
    f: "findMany sch w (orderBy_of q) (if skip_of q < int ?count then Some (skip_of q) else None)
          (q_take q) (prisma_employee s) = Inr found"
    by (auto simp: getEmployees_def Let_def split: sum.splits)
  define X where "X = (let total_v = (if length found > 0 then int ?count else 0);
                lastPage_v = (case q_take q of
                                Some take_q \<Rightarrow> Math_ceil_div total_v take_q
                              | None \<Rightarrow> if total_v > 0 then Num 1 else Num 0);
                currentPage_v = (case q_page q of
                                   Some page \<Rightarrow> if js_gt page lastPage_v then 1 else page
                                 | None \<Rightarrow> if total_v > 0 then 1 else 0);
                perPage_v = (case q_take q of Some take_q \<Rightarrow> take_q | None \<Rightarrow> total_v)
            in \<lparr>pageInfo_total = total_v, pageInfo_currentPage = currentPage_v,
                pageInfo_lastPage = lastPage_v, pageInfo_perPage = perPage_v,
                employees = found\<rparr>)"
  have "getEmployees sch q s = Inr X"
    unfolding X_def by (simp add: getEmployees_def Let_def w c f)
  with ok have r: "res = X" by simp
  have "employees X = found
         \<and> pageInfo_total X = (if length found > 0 then int ?count else 0)
         \<and> pageInfo_lastPage X
             = (case q_take q of
                  Some take_q \<Rightarrow> Math_ceil_div (pageInfo_total X) take_q
                | None \<Rightarrow> if pageInfo_total X > 0 then Num 1 else Num 0)
         \<and> pageInfo_currentPage X
             = (case q_page q of
                  Some page \<Rightarrow> if js_gt page (pageInfo_lastPage X) then 1 else page
                | None \<Rightarrow> if pageInfo_total X > 0 then 1 else 0)
         \<and> pageInfo_perPage X = (case q_take q of Some take_q \<Rightarrow> take_q | None \<Rightarrow> pageInfo_total X)"
    by (simp add: X_def Let_def split: option.splits)
  then have "employees res = found
         \<and> pageInfo_total res = (if length found > 0 then int ?count else 0)
         \<and> pageInfo_lastPage res
             = (case q_take q of
                  Some take_q \<Rightarrow> Math_ceil_div (pageInfo_total res) take_q
                | None \<Rightarrow> if pageInfo_total res > 0 then Num 1 else Num 0)
         \<and> pageInfo_currentPage res
             = (case q_page q of
                  Some page \<Rightarrow> if js_gt page (pageInfo_lastPage res) then 1 else page
                | None \<Rightarrow> if pageInfo_total res > 0 then 1 else 0)
         \<and> pageInfo_perPage res = (case q_take q of Some take_q \<Rightarrow> take_q | None \<Rightarrow> pageInfo_total res)"
    by (simp only: r)
  with f show ?thesis by blast
qed




text \<open>
  A listing whose \<^verbatim>\<open>isEmployed\<close> is a filter object is served: of the two example
  rows, the one that is not employed.
\<close>

lemma listing_with_filter_object:
  \<open>getEmployees schema0 (query0\<lparr>q_isEmployed := Some ''{"not":true}''\<rparr>) pstore1
     = Inr \<lparr>pageInfo_total = 1, pageInfo_currentPage = 1, pageInfo_lastPage = Num 1,
            pageInfo_perPage = 1, employees = [jane]\<rparr>\<close>
proof -
  let ?q = \<open>query0\<lparr>q_isEmployed := Some ''{"not":true}''\<rparr>\<close>
  let ?w = "\<lparr>w_OR = OR_of ?q, w_currency = None, w_department = None, w_techStack = None,
             w_isEmployed = Some (\<lambda>stored. \<not> stored)\<rparr>"
  have qf: "q_currency query0 = None" "q_department query0 = None" "q_techStack query0 = None"
    by (simp_all add: query0_def)
  have w: "where_of schema0 ?q = Inr ?w"
    by (simp add: where_of_def qf if_truthy_def isEmployed_where_def json_blank_def schema0_def
                  boolean_filter_object_def)
  have "searchTerm_of ?q = []"
    by (simp add: searchTerm_of_def query0_def)
  then have m: "search_matches lower (OR_of ?q) e" for e
    by (simp add: OR_of_def search_matches_def contains_filter_def contains_empty)
  have fl: "filter (where_matches schema0 ?w) (prisma_employee pstore1) = [jane]"
    using m
    by (simp add: where_matches_def filters_match_def equals_filter_def pstore1_def schema0_def
                  jane_def mary_def)
  have v: "valid_where schema0 ?w"
    by (simp add: valid_where_def in_enum_def)
  have q: "skip_of ?q = 0" "orderBy_of ?q = None" "q_take ?q = None" "q_page ?q = None"
    by (simp_all add: skip_of_def orderBy_of_def query0_def if_truthy_def)
  show ?thesis
    by (simp add: getEmployees_def w q employee_count_def v fl findMany_def sorter_of_def Let_def)
qed




section \<open>Pages of employees\<close>

text \<open>\<^verbatim>\<open>Math.ceil(a / t)\<close> for a positive \<^verbatim>\<open>t\<close> lies within one \<^verbatim>\<open>t\<close> above \<^verbatim>\<open>a\<close>.\<close>

lemma ceil_div_bounds:
  assumes t: "0 < (t::int)"
  shows "a \<le> (- ((- a) div t)) * t \<and> (- ((- a) div t)) * t < a + t"
proof -
  define d where "d = (- a) div t"
  define m where "m = (- a) mod t"
  have eq: "d * t + m = - a"
    by (simp add: d_def m_def)
  have m: "0 \<le> m" "m < t"
    using t by (simp_all add: m_def)
  have "(- d) * t = - (d * t)"
    by simp
  with eq m have "a \<le> (- d) * t \<and> (- d) * t < a + t"
    by linarith
  then show ?thesis
    by (simp only: d_def)
qed

lemma ceil_div_lower: "0 < (t::int) \<Longrightarrow> a \<le> (- ((- a) div t)) * t"
  using ceil_div_bounds by blast

lemma ceil_div_upper: "0 < (t::int) \<Longrightarrow> (- ((- a) div t)) * t < a + t"
  using ceil_div_bounds by blast


text \<open>
  With a page number and a page size of at least one, and a store ordering
  that keeps the number of rows, the handler does what the pagination rule
  says: an offset at or beyond the count is dropped (the first page is
  returned, reported as page 1), an offset within the count selects the
  requested page, reported under its number.
\<close>

lemma pagination_positive:
  assumes ok: "getEmployees sch q s = Inr res" and w: "where_of sch q = Inr w"
      and pg: "q_page q = Some page" "1 \<le> page" and tk: "q_take q = Some t" "1 \<le> t"
      and srt: "sorter_of sch (orderBy_of q) = Some sorter"
      and len: "length (sorter (filter (where_matches sch w) (prisma_employee s)))
                = length (filter (where_matches sch w) (prisma_employee s))"
  shows "(int (length (filter (where_matches sch w) (prisma_employee s))) \<le> (page - 1) * t
            \<longrightarrow> employees res = page_rows (sorter (filter (where_matches sch w) (prisma_employee s))) 1 t
              \<and> pageInfo_currentPage res = 1)
       \<and> ((page - 1) * t < int (length (filter (where_matches sch w) (prisma_employee s)))
            \<longrightarrow> employees res = page_rows (sorter (filter (where_matches sch w) (prisma_employee s))) page t
              \<and> pageInfo_currentPage res = page)"
proof -
  let ?rows = "sorter (filter (where_matches sch w) (prisma_employee s))"
  let ?n = "int (length (filter (where_matches sch w) (prisma_employee s)))"
  let ?off = "(page - 1) * t"
  from getEmployees_unfold [OF ok w] obtain found where
    f: "findMany sch w (orderBy_of q) (if skip_of q < ?n then Some (skip_of q) else None)
          (q_take q) (prisma_employee s) = Inr found"
    and e: "employees res = found"
    and tot: "pageInfo_total res = (if length found > 0 then ?n else 0)"
    and lp: "pageInfo_lastPage res = Math_ceil_div (pageInfo_total res) t"
    and cp: "pageInfo_currentPage res = (if js_gt page (pageInfo_lastPage res) then 1 else page)"
    using pg tk by auto
  have sk: "skip_of q = ?off"
    using pg tk by (simp add: skip_of_def)
  have off0: "0 \<le> ?off"
    using pg tk by simp
  have t0: "0 < t" using tk by simp
  have lp': "pageInfo_lastPage res = Num (- ((- pageInfo_total res) div t))"
    using lp t0 by (simp add: Math_ceil_div_def)
  have beyond_case: "employees res = page_rows ?rows 1 t \<and> pageInfo_currentPage res = 1"
    if beyond: "?n \<le> ?off"
  proof -
    from beyond f sk srt tk have fd: "found = take (nat t) ?rows"
      by (auto simp: findMany_def Let_def split: if_splits)
    have le: "pageInfo_total res \<le> ?n" using tot by simp
    define c where "c = - ((- pageInfo_total res) div t)"
    have "c * t < pageInfo_total res + t"
      unfolding c_def using t0 by (rule ceil_div_upper)
    also have "\<dots> \<le> ?off + t" using le beyond by simp
    also have "\<dots> = page * t" by (simp add: algebra_simps)
    finally have "c < page"
      using t0 by (simp add: mult_less_cancel_right)
    then have "- ((- pageInfo_total res) div t) < page"
      by (simp only: c_def)
    with cp lp' have "pageInfo_currentPage res = 1" by simp
    with e fd show ?thesis
      by (simp add: page_rows_def)
  qed
  have within_case: "employees res = page_rows ?rows page t \<and> pageInfo_currentPage res = page"
    if within: "?off < ?n"
  proof -
    from within f sk srt tk off0 have fd: "found = take (nat t) (drop (nat ?off) ?rows)"
      by (auto simp: findMany_def Let_def split: if_splits)
    from within off0 have "nat ?off < length ?rows"
      using len by linarith
    with fd t0 have "found \<noteq> []" by auto
    with tot have tn: "pageInfo_total res = ?n" by simp
    define c where "c = - ((- ?n) div t)"
    have "?off < ?n" by fact
    also have "?n \<le> c * t"
      unfolding c_def using t0 by (rule ceil_div_lower)
    finally have "page - 1 < c"
      using t0 by (simp add: mult_less_cancel_right)
    then have "\<not> page > - ((- ?n) div t)"
      by (simp add: c_def)
    with cp lp' tn have "pageInfo_currentPage res = page" by simp
    with e fd show ?thesis
      by (simp add: page_rows_def)
  qed
  from beyond_case within_case show ?thesis
    by blast
qed


text \<open>
  C5 fails where the page size is \<^verbatim>\<open>0\<close>: with no matching employee the offset
  \<^verbatim>\<open>(2 - 1) * 0 = 0\<close> is at the count, \<^verbatim>\<open>lastPage\<close> is \<^verbatim>\<open>Math.ceil(0 / 0)\<close>, that
  is \<^verbatim>\<open>NaN\<close>, the test \<^verbatim>\<open>Number(page) > lastPage\<close> is false, and the reply
  reports \<^verbatim>\<open>currentPage\<close> 2 where the claim says 1.
\<close>

theorem page_beyond_empty_take_zero:
  "getEmployees \<lparr>Currency = [], Department = [], TechStack = [], order_rows = (\<lambda>f d. None),
                 lower_case = (\<lambda>c. c), isEmployed_object = (\<lambda>x. None)\<rparr>
     \<lparr>q_searchTerm = None, q_currency = None, q_department = None, q_techStack = None,
      q_isEmployed = None, q_orderByField = None, q_orderDirection = None,
      q_take = Some 0, q_page = Some 2\<rparr>
     \<lparr>prisma_user = [], prisma_employee = []\<rparr>
   = Inr \<lparr>pageInfo_total = 0, pageInfo_currentPage = 2, pageInfo_lastPage = NaN,
          pageInfo_perPage = 0, employees = []\<rparr>"
  by (simp add: getEmployees_def where_of_def if_truthy_def employee_count_def valid_where_def
                in_enum_def findMany_def sorter_of_def orderBy_of_def skip_of_def
                Math_ceil_div_def Let_def)




section \<open>Updating an employee\<close>

text \<open>
  C8: a successful \<^verbatim>\<open>updateEmployee\<close> stores the current time as the
  employment date when the request carries an \<^verbatim>\<open>isEmployed\<close> different from the
  stored one, and keeps the stored date when \<^verbatim>\<open>isEmployed\<close> is absent or equal
  to the stored one; the record it returns is the one the store holds
  afterwards.
\<close>

theorem update_employment_date:
  assumes ok: "updateEmployee sch now req s = (Inr (st, updated), s')"
      and e: "find (\<lambda>e. emp_id e = ue_employeeId req) (prisma_employee s) = Some employee"
  shows "(ue_isEmployed req \<noteq> None \<and> ue_isEmployed req \<noteq> Some (emp_isEmployed employee)
            \<longrightarrow> emp_isEmployedDate updated = now)
       \<and> (ue_isEmployed req = None \<or> ue_isEmployed req = Some (emp_isEmployed employee)
            \<longrightarrow> emp_isEmployedDate updated = emp_isEmployedDate employee)
       \<and> find (\<lambda>e. emp_id e = ue_employeeId req) (prisma_employee s') = Some updated"
proof -
  from find_pred [OF e] have id: "emp_id employee = ue_employeeId req" by simp
  let ?date = "if ue_isEmployed req \<noteq> None \<and> ue_isEmployed req \<noteq> Some (emp_isEmployed employee)
               then Some now else None"
  from ok e have upd: "emp_isEmployedDate updated = or_keep ?date (emp_isEmployedDate employee)"
    and id': "emp_id updated = emp_id employee"
    and s': "s' = s\<lparr>prisma_employee := save emp_id updated (prisma_employee s)\<rparr>"
    by (auto simp: updateEmployee_def Let_def split: if_splits)
  from upd have d1: "ue_isEmployed req \<noteq> None \<and> ue_isEmployed req \<noteq> Some (emp_isEmployed employee)
            \<longrightarrow> emp_isEmployedDate updated = now"
    by (simp add: or_keep_def)
  from upd have d2: "ue_isEmployed req = None \<or> ue_isEmployed req = Some (emp_isEmployed employee)
            \<longrightarrow> emp_isEmployedDate updated = emp_isEmployedDate employee"
    by (auto simp: or_keep_def)
  from find_save [OF e, of updated] id id' s'
  have "find (\<lambda>e. emp_id e = ue_employeeId req) (prisma_employee s') = Some updated"
    by simp
  with d1 d2 show ?thesis by blast
qed


theorem update_employment_date_witness:
  "(\<exists>updated s'.
      updateEmployee schema0 5000
        \<lparr>ue_user = Some padmin, ue_employeeId = ''e1'', ue_firstName = None, ue_lastName = None,
         ue_department = None, ue_salary = None, ue_currency = None, ue_techStack = None,
         ue_isEmployed = Some True\<rparr> pstore1 = (Inr (200, updated), s')
      \<and> emp_isEmployed jane = False \<and> emp_isEmployedDate updated = 5000)
   \<and> (\<exists>updated s'.
      updateEmployee schema0 5000
        \<lparr>ue_user = Some padmin, ue_employeeId = ''e2'', ue_firstName = Some ''Marie'', ue_lastName = None,
         ue_department = None, ue_salary = None, ue_currency = None, ue_techStack = None,
         ue_isEmployed = Some True\<rparr> pstore1 = (Inr (200, updated), s')
      \<and> emp_isEmployed mary = True \<and> emp_firstName updated = ''Marie''
      \<and> emp_isEmployedDate updated = emp_isEmployedDate mary)"
proof -
  let ?r1 = "\<lparr>ue_user = Some padmin, ue_employeeId = ''e1'', ue_firstName = None, ue_lastName = None,
         ue_department = None, ue_salary = None, ue_currency = None, ue_techStack = None,
         ue_isEmployed = Some True\<rparr>"
  let ?r2 = "\<lparr>ue_user = Some padmin, ue_employeeId = ''e2'', ue_firstName = Some ''Marie'', ue_lastName = None,
         ue_department = None, ue_salary = None, ue_currency = None, ue_techStack = None,
         ue_isEmployed = Some True\<rparr>"
  have f1: "find (\<lambda>e. emp_id e = ue_employeeId ?r1) (prisma_employee pstore1) = Some jane"
    by (simp add: pstore1_def jane_def)
  have f2: "find (\<lambda>e. emp_id e = ue_employeeId ?r2) (prisma_employee pstore1) = Some mary"
    by (simp add: pstore1_def jane_def mary_def)
  obtain u1 s1 where o1: "updateEmployee schema0 5000 ?r1 pstore1 = (Inr (200, u1), s1)"
    using f1 by (simp add: updateEmployee_def padmin_def in_enum_def Let_def)
  obtain u2 s2 where o2: "updateEmployee schema0 5000 ?r2 pstore1 = (Inr (200, u2), s2)"
    and n2: "emp_firstName u2 = ''Marie''"
    using f2 by (simp add: updateEmployee_def padmin_def in_enum_def or_keep_def Let_def)
  have j: "emp_isEmployed jane = False" and m: "emp_isEmployed mary = True"
    by (simp_all add: jane_def mary_def)
  from update_employment_date [OF o1 f1] j have "emp_isEmployedDate u1 = 5000"
    by simp
  moreover from update_employment_date [OF o2 f2] m have "emp_isEmployedDate u2 = emp_isEmployedDate mary"
    by simp
  ultimately show ?thesis using o1 o2 n2 j m by blast
qed

section \<open>The handlers keep the store well-formed\<close>

text \<open>
  The well-formedness that the theorems on \<^verbatim>\<open>deleteUser\<close> and \<^verbatim>\<open>resetPassword\<close>
  assume is an invariant of the three handlers of part 000 that write to the
  store, as long as the store hands out identifiers it has not used: so it
  holds in every store these handlers produce from a well-formed one.
\<close>

lemma links_resolve_iff:
  "links_resolve s \<longleftrightarrow>
     (\<forall>u \<in> set (UserModel s). \<forall>r. u_employee u = Some r \<longrightarrow> r \<in> e_id ` set (EmployeeModel s))"
  by (auto simp: links_resolve_def list_all_iff split: option.splits)

lemma distinct_map_deleteOne: "distinct (map f xs) \<Longrightarrow> distinct (map f (deleteOne key i xs))"
  by (induction xs) (auto dest: subsetD [OF set_deleteOne_subset])

lemma distinct_filter_map_deleteOne:
  "distinct (filter P (map f xs)) \<Longrightarrow> distinct (filter P (map f (deleteOne key i xs)))"
  by (induction xs) (auto dest: subsetD [OF set_deleteOne_subset])

lemma map_remove_memberships: "map p_id (remove_memberships eid found coll) = map p_id coll"
  by (induction found arbitrary: coll) (simp_all add: map_key_save)

lemma save_same_field:
  "find (\<lambda>u. key u = key d) xs = Some x \<Longrightarrow> f d = f x \<Longrightarrow> map f (save key d xs) = map f xs"
  by (induction xs) (auto split: if_splits)

lemma registerUser_store_ok:
  assumes ok: "store_ok s"
      and fe: "new_employee_id env \<notin> e_id ` set (EmployeeModel s)"
      and fu: "new_user_id env \<notin> u_id ` set (UserModel s)"
  shows "store_ok (snd (registerUser env req s))"
proof -
  from ok have ids: "unique_ids s" and one: "one_user_per_employee s" and lr: "links_resolve s"
    by (simp_all add: store_ok_def)
  have nolink: "Some (new_employee_id env) \<notin> set (map u_employee (UserModel s))"
  proof
    assume "Some (new_employee_id env) \<in> set (map u_employee (UserModel s))"
    then obtain u where "u \<in> set (UserModel s)" "u_employee u = Some (new_employee_id env)"
      by auto
    with lr have "new_employee_id env \<in> e_id ` set (EmployeeModel s)"
      by (simp add: links_resolve_iff)
    with fe show False by simp
  qed
  have grown: "store_ok (s\<lparr>EmployeeModel := EmployeeModel s @ [e], UserModel := UserModel s @ [u]\<rparr>)"
    if "e_id e = new_employee_id env" "u_id u = new_user_id env" "u_employee u = Some (e_id e)"
    for e u
    using that ids one lr fe fu nolink
    by (auto simp: store_ok_def unique_ids_def one_user_per_employee_def links_resolve_iff)
  have undone: "deleteOne e_id (new_employee_id env) (EmployeeModel s @ [e]) = EmployeeModel s"
    if "e_id e = new_employee_id env" for e
    using fe that by (intro deleteOne_append_fresh) auto
  show ?thesis
    using ok grown undone
    by (auto simp: registerUser_def register_catch_def EmployeeModel_create_def UserModel_create_def
                   Let_def split: option.splits sum.splits)
qed

lemma deleteUser_store_ok:
  assumes ok: "store_ok s"
  shows "store_ok (snd (deleteUser_mongoose req s))"
proof (cases "fst (deleteUser_mongoose req s)")
  case (Inl err)
  then have "snd (deleteUser_mongoose req s) = s"
    by (auto simp: deleteUser_mongoose_def Let_def split: option.splits if_splits)
  with ok show ?thesis by simp
next
  case (Inr r)
  then obtain s' where run: "deleteUser_mongoose req s = (Inr r, s')"
    by (cases "deleteUser_mongoose req s") auto
  from ok have ids: "unique_ids s" and one: "one_user_per_employee s" and lr: "links_resolve s"
    by (simp_all add: store_ok_def)
  from deleteUser_success [OF run] obtain user employee where
    u: "find (\<lambda>u. u_id u = params_userId req) (UserModel s) = Some user"
    and link: "u_employee user = Some (e_id employee)"
    and ein: "find (\<lambda>e. e_id e = e_id employee) (EmployeeModel s) = Some employee"
    and s': "s' = s\<lparr>ProjectModel := remove_memberships (e_id employee)
                                   (filter (has_member (e_id employee)) (ProjectModel s)) (ProjectModel s),
                 UserModel := deleteOne u_id (u_id user) (UserModel s),
                 EmployeeModel := deleteOne e_id (e_id employee) (EmployeeModel s)\<rparr>"
    by blast
  from ids have du: "distinct (map u_id (UserModel s))"
    by (simp add: unique_ids_def)
  from find_key [OF u] have uin: "user \<in> set (UserModel s)"
    by simp
  have nolink: "\<forall>u \<in> set (UserModel s'). u_employee u \<noteq> Some (e_id employee)"
    using no_link_left [OF du one uin link] s' by simp
  from ids have de: "distinct (map e_id (EmployeeModel s))"
    by (simp add: unique_ids_def)
  from find_key [OF ein] have "employee \<in> set (EmployeeModel s)" by simp
  from set_deleteOne_distinct [OF de this]
  have rest: "set (EmployeeModel s') = set (EmployeeModel s) - {employee}"
    using s' by simp
  have u: "unique_ids s'"
    using ids s' by (simp add: unique_ids_def distinct_map_deleteOne map_remove_memberships)
  have o: "one_user_per_employee s'"
    using one s' by (simp add: one_user_per_employee_def distinct_filter_map_deleteOne)
  have l: "links_resolve s'"
    unfolding links_resolve_iff
  proof (intro ballI allI impI)
    fix v r assume v: "v \<in> set (UserModel s')" and vr: "u_employee v = Some r"
    with s' have vin: "v \<in> set (UserModel s)"
      using set_deleteOne_subset [of u_id "u_id user" "UserModel s"] by auto
    with lr vr obtain e where e: "e \<in> set (EmployeeModel s)" "e_id e = r"
      unfolding links_resolve_iff by blast
    from nolink v vr have "r \<noteq> e_id employee" by auto
    with e have "e \<noteq> employee" by auto
    with e rest have "e \<in> set (EmployeeModel s')" by simp
    with e show "r \<in> e_id ` set (EmployeeModel s')" by auto
  qed
  from u o l run show ?thesis by (simp add: store_ok_def)
qed

lemma resetPassword_store_ok:
  assumes ok: "store_ok s"
  shows "store_ok (snd (resetPassword env req s))"
proof (cases "fst (resetPassword env req s)")
  case (Inl err)
  then have "snd (resetPassword env req s) = s"
    by (auto simp: resetPassword_def Let_def split: option.splits if_splits)
  with ok show ?thesis by simp
next
  case (Inr msg)
  then obtain user where u: "find (\<lambda>u. u_id u = rp_userId req) (UserModel s) = Some user"
    by (auto simp: resetPassword_def Let_def split: option.splits)
  with Inr obtain tokenObj where
    t: "find (\<lambda>t. t_user t = u_id user \<and> t_token t = rp_token req) (TokenModel s) = Some tokenObj"
    by (auto simp: resetPassword_def Let_def split: option.splits)
  with Inr u obtain password where p: "rp_password req = Some password" "password \<noteq> []"
    by (auto simp: resetPassword_def Let_def split: option.splits if_splits)
  from u t p have
    s': "snd (resetPassword env req s)
             = s\<lparr>UserModel := save u_id (user\<lparr>u_password := bcrypt_hash env password\<rparr>) (UserModel s),
                 TokenModel := deleteOne t_id (t_id tokenObj) (TokenModel s)\<rparr>"
    by (simp add: resetPassword_def Let_def)
  let ?user' = "user\<lparr>u_password := bcrypt_hash env password\<rparr>"
  from find_key [OF u] have "find (\<lambda>u. u_id u = u_id ?user') (UserModel s) = Some user"
    using u by simp
  from save_same_field [OF this, of u_employee]
  have links: "map u_employee (save u_id ?user' (UserModel s)) = map u_employee (UserModel s)"
    by simp
  then have members: "u_employee ` set (save u_id ?user' (UserModel s)) = u_employee ` set (UserModel s)"
    by (metis set_map)
  from ok have "unique_ids (snd (resetPassword env req s))"
    unfolding s' by (simp add: store_ok_def unique_ids_def map_key_save distinct_map_deleteOne)
  moreover from ok have "one_user_per_employee (snd (resetPassword env req s))"
    unfolding s' by (simp add: store_ok_def one_user_per_employee_def links)
  moreover have "links_resolve (snd (resetPassword env req s))"
  proof -
    have "\<forall>r. Some r \<in> u_employee ` set (UserModel s) \<longrightarrow> r \<in> e_id ` set (EmployeeModel s)"
      using ok by (auto simp: store_ok_def links_resolve_iff)
    with members have "\<forall>r. Some r \<in> u_employee ` set (save u_id ?user' (UserModel s))
                          \<longrightarrow> r \<in> e_id ` set (EmployeeModel s)"
      by simp
    then show ?thesis
      unfolding s' links_resolve_iff by (auto simp: image_iff) metis
  qed
  ultimately show ?thesis by (simp add: store_ok_def)
qed


end
